theory Spec2Isabelle
  imports Main
begin

section \<open>Python values\<close>

text \<open>
  The program of \<^verbatim>\<open>main.py\<close> reads two JSON documents, maps the records of each into one
  unified shape and writes the concatenation. Its data are the values \<^verbatim>\<open>json.load\<close> builds:
  \<^verbatim>\<open>None\<close>, booleans, unbounded integers, binary64 floats, strings, lists and dicts with
  string keys. A dict is an association list in insertion order (a dict has each key once).

  A string is held as the bytes of its UTF-8 encoding, one character of the model for each
  byte: an ASCII character is one byte, so the literals of the program read as they are
  written. A Python string can also hold a lone surrogate (a JSON document spells one as
  \<^verbatim>\<open>"\ud800"\<close>), which UTF-8 does not encode; it is held as the three bytes that CPython
  gives it under \<^verbatim>\<open>surrogatepass\<close>, \<^verbatim>\<open>ED\<close>, then \<^verbatim>\<open>A0\<close> to \<^verbatim>\<open>BF\<close>, then \<^verbatim>\<open>80\<close> to \<^verbatim>\<open>BF\<close>.
\<close>

text \<open>
  A binary64 float: \<open>Finite m e\<close> is the number \<open>m * 2 ^ e\<close>. The two zeros are not told
  apart (they are equal in Python).
\<close>

datatype double = Finite int int | PosInf | NegInf | NaN

datatype json =
    JNull
  | JBool bool
  | JInt int
  | JFloat double
  | JStr string
  | JList "json list"
  | JObj "(string \<times> json) list"

type_synonym document = "(string \<times> json) list"

text \<open>
  The number of bytes of the character that a byte starts, and the characters of a string,
  each with its bytes.
\<close>

definition utf8_width :: "char \<Rightarrow> nat" where
  "utf8_width c =
     (let b = (of_char c :: nat)
      in if b < 128 then 1 else if b div 16 = 14 then 3 else if b div 16 = 15 then 4 else 2)"

fun code_points :: "string \<Rightarrow> string list" where
  "code_points [] = []"
| "code_points (c # cs) =
     (c # take (utf8_width c - 1) cs) # code_points (drop (utf8_width c - 1) cs)"

text \<open>
  A surrogate is a character of three bytes whose first is \<^verbatim>\<open>ED\<close> and whose second is
  \<^verbatim>\<open>A0\<close> or more. The byte \<^verbatim>\<open>ED\<close> starts no other character whose second byte is that
  large, and is no later byte of any; so a string holds a surrogate when the byte \<^verbatim>\<open>ED\<close>
  is followed by such a byte.
\<close>

definition is_surrogate :: "string \<Rightarrow> bool" where
  "is_surrogate cp = (length cp = 3 \<and> cp ! 0 = CHR 0xED \<and> 160 \<le> (of_char (cp ! 1) :: nat))"

fun has_surrogate :: "string \<Rightarrow> bool" where
  "has_surrogate (c # d # cs) =
     ((c = CHR 0xED \<and> 160 \<le> (of_char d :: nat)) \<or> has_surrogate (d # cs))"
| "has_surrogate cs = False"

text \<open>The exceptions the program can meet; only some of them are caught.\<close>

datatype py_error =
    FileNotFoundError
  | JSONDecodeError
  | UnicodeDecodeError
  | UnicodeEncodeError
  | OSError
  | ValueError
  | OverflowError
  | KeyError string
  | TypeError
  | AttributeError

text \<open>
  \<^verbatim>\<open>except ValueError\<close> also catches the subclasses of \<^verbatim>\<open>ValueError\<close>.
\<close>

fun is_ValueError :: "py_error \<Rightarrow> bool" where
  "is_ValueError ValueError = True"
| "is_ValueError JSONDecodeError = True"
| "is_ValueError UnicodeDecodeError = True"
| "is_ValueError UnicodeEncodeError = True"
| "is_ValueError _ = False"

section \<open>Binary64 arithmetic\<close>

text \<open>
  \<^verbatim>\<open>int(dt.timestamp() * 1000)\<close> is computed on floats: the true division of two integers
  (correctly rounded), one float multiplication (rounded to nearest, ties to even) and the
  truncation of \<^verbatim>\<open>int()\<close>. The rounding is written out on integers.
\<close>

text \<open>\<^verbatim>\<open>int.bit_length\<close>.\<close>

fun bit_length :: "nat \<Rightarrow> nat" where
  "bit_length n = (if n = 0 then 0 else Suc (bit_length (n div 2)))"

declare bit_length.simps [simp del]

text \<open>The integer nearest to \<open>n / d\<close>, ties to the even one (\<open>0 \<le> n\<close>, \<open>0 < d\<close>).\<close>

definition round_half_even :: "int \<Rightarrow> int \<Rightarrow> int" where
  "round_half_even n d =
     (let q = n div d; r = n mod d
      in if 2 * r < d then q
         else if d < 2 * r then q + 1
         else if even q then q else q + 1)"

text \<open>
  The binary64 value nearest to the rational \<open>n / d\<close> (\<open>0 < d\<close>): 53 significant bits for a
  normal number, the fixed quantum \<open>2 ^ -1074\<close> below \<open>2 ^ -1022\<close>, infinity from
  \<open>2 ^ 1024\<close> on.
\<close>

definition round_double :: "int \<Rightarrow> int \<Rightarrow> double" where
  "round_double n d =
     (if n = 0 then Finite 0 0
      else
        let a = \<bar>n\<bar>;
            k = int (bit_length (nat a)) - int (bit_length (nat d));
            E = (if d * 2 ^ nat k \<le> a * 2 ^ nat (- k) then k else k - 1);
            q = max (E - 52) (- 1074);
            m = round_half_even (a * 2 ^ nat (- q)) (d * 2 ^ nat q)
        in if 971 < q \<or> (q = 971 \<and> 2 ^ 53 \<le> m)
           then (if 0 < n then PosInf else NegInf)
           else Finite (sgn n * m) q)"

text \<open>\<^verbatim>\<open>a / b\<close> on integers, for the divisor \<open>10 ** 6\<close> of \<^verbatim>\<open>timedelta.total_seconds\<close>.\<close>

definition int_truediv :: "int \<Rightarrow> int \<Rightarrow> double" where
  "int_truediv a b = round_double a b"

text \<open>\<^verbatim>\<open>float(i)\<close>, the conversion of the right operand of \<^verbatim>\<open>x * 1000\<close>.\<close>

definition double_of_int :: "int \<Rightarrow> double" where
  "double_of_int i = round_double i 1"

text \<open>\<^verbatim>\<open>x * y\<close> on floats: the exact product, rounded once.\<close>

fun double_mul :: "double \<Rightarrow> double \<Rightarrow> double" where
  "double_mul (Finite m1 e1) (Finite m2 e2) =
     round_double (m1 * m2 * 2 ^ nat (e1 + e2)) (2 ^ nat (- (e1 + e2)))"
| "double_mul NaN _ = NaN"
| "double_mul _ NaN = NaN"
| "double_mul (Finite m e) PosInf = (if m = 0 then NaN else if 0 < m then PosInf else NegInf)"
| "double_mul (Finite m e) NegInf = (if m = 0 then NaN else if 0 < m then NegInf else PosInf)"
| "double_mul PosInf (Finite m e) = (if m = 0 then NaN else if 0 < m then PosInf else NegInf)"
| "double_mul NegInf (Finite m e) = (if m = 0 then NaN else if 0 < m then NegInf else PosInf)"
| "double_mul PosInf PosInf = PosInf"
| "double_mul NegInf NegInf = PosInf"
| "double_mul PosInf NegInf = NegInf"
| "double_mul NegInf PosInf = NegInf"

text \<open>
  \<^verbatim>\<open>int(x)\<close> on a float truncates toward zero; it raises \<^verbatim>\<open>OverflowError\<close> on an
  infinity and \<^verbatim>\<open>ValueError\<close> on a NaN.
\<close>

fun py_int :: "double \<Rightarrow> py_error + int" where
  "py_int (Finite m e) = Inr (sgn m * (\<bar>m\<bar> * 2 ^ nat e div 2 ^ nat (- e)))"
| "py_int PosInf = Inl OverflowError"
| "py_int NegInf = Inl OverflowError"
| "py_int NaN = Inl ValueError"

section \<open>The calendar of the \<^verbatim>\<open>datetime\<close> module\<close>

text \<open>
  \<^verbatim>\<open>datetime\<close> belongs to the standard library, not to the repository. The definitions of
  this section and the next follow the library: the proleptic Gregorian ordinal of a date,
  the fields of a \<^verbatim>\<open>datetime\<close> with the UTC offset of its zone in microseconds
  (\<open>None\<close> for a naive value), and the range checks of its constructor.
\<close>

definition is_leap :: "int \<Rightarrow> bool" where
  "is_leap y = (y mod 4 = 0 \<and> (y mod 100 \<noteq> 0 \<or> y mod 400 = 0))"

definition days_before_year :: "int \<Rightarrow> int" where
  "days_before_year year = (let y = year - 1 in y * 365 + y div 4 - y div 100 + y div 400)"

definition DAYS_IN_MONTH :: "int list" where
  "DAYS_IN_MONTH = [- 1, 31, 28, 31, 30, 31, 30, 31, 31, 30, 31, 30, 31]"

definition days_in_month :: "int \<Rightarrow> int \<Rightarrow> int" where
  "days_in_month year month =
     (if month = 2 \<and> is_leap year then 29 else DAYS_IN_MONTH ! nat month)"

definition days_before_month :: "int \<Rightarrow> int \<Rightarrow> int" where
  "days_before_month year month =
     sum_list (take (nat month - 1) (tl DAYS_IN_MONTH))
       + (if 2 < month \<and> is_leap year then 1 else 0)"

definition ymd2ord :: "int \<Rightarrow> int \<Rightarrow> int \<Rightarrow> int" where
  "ymd2ord year month day = days_before_year year + days_before_month year month + day"

text \<open>
  The date of an ordinal: the cycles of 400, 100, 4 and 1 years that precede it, then the
  month by an estimate that is exact or one too large.
\<close>

definition ord2ymd :: "int \<Rightarrow> int \<times> int \<times> int" where
  "ord2ymd ordinal =
     (let n = ordinal - 1;
          n400 = n div 146097; r400 = n mod 146097;
          n100 = r400 div 36524; r100 = r400 mod 36524;
          n4 = r100 div 1461; r4 = r100 mod 1461;
          n1 = r4 div 365; r1 = r4 mod 365;
          year = n400 * 400 + 1 + n100 * 100 + n4 * 4 + n1
      in if n1 = 4 \<or> n100 = 4 then (year - 1, 12, 31)
         else
           let leapyear = (n1 = 3 \<and> (n4 \<noteq> 24 \<or> n100 = 3));
               month = (r1 + 50) div 32;
               preceding = sum_list (take (nat month - 1) (tl DAYS_IN_MONTH))
                 + (if 2 < month \<and> leapyear then 1 else 0)
           in if r1 < preceding
              then (year, month - 1,
                    r1 - (preceding - (DAYS_IN_MONTH ! nat (month - 1)
                            + (if month - 1 = 2 \<and> leapyear then 1 else 0))) + 1)
              else (year, month, r1 - preceding + 1))"

text \<open>
  ISO 8601 week dates. Week 1 of a year is the week of its first Thursday; a year has a
  week 53 when it starts on a Thursday, or on a Wednesday and is a leap year. (Monday is
  weekday 0.)
\<close>

definition weekday :: "int \<Rightarrow> int \<Rightarrow> int \<Rightarrow> int" where
  "weekday year month day = (ymd2ord year month day + 6) mod 7"

definition iso_week1_monday :: "int \<Rightarrow> int" where
  "iso_week1_monday year =
     (let first_day = ymd2ord year 1 1;
          first_weekday = (first_day + 6) mod 7;
          week1_monday = first_day - first_weekday
      in if 3 < first_weekday then week1_monday + 7 else week1_monday)"

definition iso_to_ymd :: "int \<Rightarrow> int \<Rightarrow> int \<Rightarrow> (int \<times> int \<times> int) option" where
  "iso_to_ymd iso_year iso_week iso_day =
     (let first_weekday = weekday iso_year 1 1
      in if (iso_week \<le> 0 \<or> 53 \<le> iso_week)
            \<and> \<not> (iso_week = 53 \<and> (first_weekday = 3 \<or> (first_weekday = 2 \<and> is_leap iso_year)))
         then None
         else if iso_day \<le> 0 \<or> 8 \<le> iso_day then None
         else Some (ord2ymd (iso_week1_monday iso_year + (iso_week - 1) * 7 + iso_day - 1)))"

record datetime =
  year :: int
  month :: int
  day :: int
  hour :: int
  minute :: int
  second :: int
  microsecond :: int
  tzinfo :: "int option"

text \<open>The constructor raises \<^verbatim>\<open>ValueError\<close> on a field out of range.\<close>

definition check_date_fields :: "int \<Rightarrow> int \<Rightarrow> int \<Rightarrow> bool" where
  "check_date_fields y m d =
     (1 \<le> y \<and> y \<le> 9999 \<and> 1 \<le> m \<and> m \<le> 12 \<and> 1 \<le> d \<and> d \<le> days_in_month y m)"

definition check_time_fields :: "int \<Rightarrow> int \<Rightarrow> int \<Rightarrow> int \<Rightarrow> bool" where
  "check_time_fields hh mm ss us =
     (0 \<le> hh \<and> hh \<le> 23 \<and> 0 \<le> mm \<and> mm \<le> 59 \<and> 0 \<le> ss \<and> ss \<le> 59
      \<and> 0 \<le> us \<and> us \<le> 999999)"

definition new_datetime ::
  "int \<times> int \<times> int \<Rightarrow> int \<times> int \<times> int \<times> int \<Rightarrow> int option \<Rightarrow> py_error + datetime" where
  "new_datetime date_components time_components tz =
     (case (date_components, time_components) of
        ((y, m, d), (hh, mm, ss, us)) \<Rightarrow>
          if check_date_fields y m d \<and> check_time_fields hh mm ss us
          then Inr \<lparr>year = y, month = m, day = d, hour = hh, minute = mm, second = ss,
                    microsecond = us, tzinfo = tz\<rparr>
          else Inl ValueError)"

text \<open>
  \<^verbatim>\<open>self - _EPOCH\<close> for an aware value, as a number of microseconds: the difference of the
  fields, less the offset of the zone (the epoch is \<^verbatim>\<open>1970-01-01T00:00:00+00:00\<close>).
\<close>

definition since_epoch :: "datetime \<Rightarrow> int \<Rightarrow> int" where
  "since_epoch dt off =
     ((ymd2ord (year dt) (month dt) (day dt) - ymd2ord 1970 1 1) * 86400
        + (second dt + minute dt * 60 + hour dt * 3600)) * 10 ^ 6
      + microsecond dt - off"

text \<open>\<^verbatim>\<open>timedelta.total_seconds\<close>: the microseconds truly divided by \<open>10 ** 6\<close>.\<close>

definition total_seconds :: "int \<Rightarrow> double" where
  "total_seconds us = int_truediv us (10 ^ 6)"

section \<open>\<^verbatim>\<open>datetime.fromisoformat\<close>\<close>

text \<open>
  The parser is the one of CPython 3.11, where the module \<^verbatim>\<open>_datetime\<close> implements it in C
  on the UTF-8 bytes of the string. It reads a date \<^verbatim>\<open>YYYY-MM-DD\<close>, \<^verbatim>\<open>YYYYMMDD\<close>,
  \<^verbatim>\<open>YYYY-Www[-d]\<close> or \<^verbatim>\<open>YYYYWww[d]\<close>, then any one character, then a time
  \<^verbatim>\<open>HH[[:]MM[[:]SS[(.|,)f+]]]\<close> and an optional zone, \<^verbatim>\<open>Z\<close> or a sign and an offset written
  like a time. It accepts more than this grammar: the scanning stops at a NUL character as
  at the end of the string, and it does not look at what stands between the last component
  it has read and the sign of the zone. The definitions follow the scanning, function by
  function. Every failure is a \<^verbatim>\<open>ValueError\<close>.
\<close>

definition NUL :: char where
  "NUL = CHR 0x00"

text \<open>
  The character at a position \<open>p\<close> (the text from there on): at the end of the text it is
  the character \<open>nxt\<close> that follows, which is \<open>NUL\<close> at the end of a C string.
\<close>

definition peek :: "char \<Rightarrow> string \<Rightarrow> char" where
  "peek nxt p = (case p of [] \<Rightarrow> nxt | c # cs \<Rightarrow> c)"

definition is_ascii_digit :: "char \<Rightarrow> bool" where
  "is_ascii_digit c = (c \<in> set ''0123456789'')"

text \<open>The next \<open>num_digits\<close> characters as a decimal number, and the position after them.\<close>

definition parse_digits :: "string \<Rightarrow> nat \<Rightarrow> (int \<times> string) option" where
  "parse_digits p num_digits =
     (if num_digits \<le> length p \<and> list_all is_ascii_digit (take num_digits p)
      then Some (foldl (\<lambda>n c. 10 * n + (int (of_char c) - 48)) 0 (take num_digits p),
                 drop num_digits p)
      else None)"

text \<open>
  A string of fewer than seven characters is refused. A surrogate may stand as the
  separator, which is character 7, 8 or 10 according to the form of the date: the first of
  these that is a surrogate is replaced by \<^verbatim>\<open>T\<close>. A surrogate anywhere else makes the
  encoding to UTF-8 fail, and the string is refused.
\<close>

definition sanitize_isoformat_str :: "string \<Rightarrow> string option" where
  "sanitize_isoformat_str dtstr =
     (let cps = code_points dtstr
      in if length cps < 7 then None
         else case filter (\<lambda>pos. pos < length cps \<and> is_surrogate (cps ! pos)) [7, 8, 10] of
             [] \<Rightarrow> Some dtstr
           | pos # others \<Rightarrow> Some (concat (cps[pos := ''T''])))"

text \<open>
  Where the date ends, decided by characters 4 and 5 (and, for a week date without
  hyphens, by the parity of the run of digits after the week). No position is found for
  \<^verbatim>\<open>YYYY-Www-\<close> with nothing after it (the C function returns \<open>-1\<close>, and the date parser
  then misses the digit of the day).
\<close>

definition find_isoformat_datetime_separator :: "string \<Rightarrow> nat option" where
  "find_isoformat_datetime_separator dtstr =
     (let len = length dtstr
      in if len = 7 then Some 7
         else if dtstr ! 4 = CHR ''-'' then
           (if dtstr ! 5 = CHR ''W'' then
              (if len < 8 then None
               else if 8 < len \<and> dtstr ! 8 = CHR ''-'' then
                 (if len = 9 then None
                  else if 10 < len \<and> is_ascii_digit (dtstr ! 10) then Some 8
                  else Some 10)
               else Some 8)
            else Some 10)
         else if dtstr ! 4 = CHR ''W'' then
           (let idx = 7 + length (takeWhile is_ascii_digit (drop 7 dtstr))
            in if idx < 9 then Some idx else if even idx then Some 7 else Some 8)
         else Some 8)"

text \<open>
  The date, read from the start of the string; \<open>len\<close> is where it ends. The hyphen after
  the year decides whether the other parts are separated by hyphens too. The day of a week
  date is read when the week does not end the date.
\<close>

definition parse_isoformat_date :: "string \<Rightarrow> nat \<Rightarrow> (int \<times> int \<times> int) option" where
  "parse_isoformat_date dtstr len =
     (case parse_digits dtstr 4 of
        None \<Rightarrow> None
      | Some (y, p0) \<Rightarrow>
          let uses_separator = (peek NUL p0 = CHR ''-'');
              p = (if uses_separator then tl p0 else p0)
          in if peek NUL p = CHR ''W'' then
               (case parse_digits (tl p) 2 of
                  None \<Rightarrow> None
                | Some (iso_week, p1) \<Rightarrow>
                    if length dtstr - length p1 < len then
                      (if uses_separator \<and> peek NUL p1 \<noteq> CHR ''-'' then None
                       else case parse_digits (if uses_separator then tl p1 else p1) 1 of
                           None \<Rightarrow> None
                         | Some (iso_day, p2) \<Rightarrow> iso_to_ymd y iso_week iso_day)
                    else iso_to_ymd y iso_week 1)
             else
               (case parse_digits p 2 of
                  None \<Rightarrow> None
                | Some (m, p1) \<Rightarrow>
                    if uses_separator \<and> peek NUL p1 \<noteq> CHR ''-'' then None
                    else case parse_digits (if uses_separator then tl p1 else p1) 2 of
                        None \<Rightarrow> None
                      | Some (d, p2) \<Rightarrow> Some (y, m, d)))"

text \<open>
  The loop over hours, minutes and seconds, from component \<open>i\<close> on. It reads two digits
  and the character \<open>c\<close> after them. The first \<open>c\<close> decides whether colons separate the
  components. The loop ends when \<open>c\<close> was the last character of the text or lies beyond it:
  the result then tells whether \<open>c\<close> is something else than \<open>NUL\<close>. It goes on to the
  fraction after a point or a comma, and after the third component when text is left.
\<close>

datatype time_scan = Malformed | Ended "int list" bool | Fraction "int list" string

fun scan_prepend :: "int \<Rightarrow> time_scan \<Rightarrow> time_scan" where
  "scan_prepend v Malformed = Malformed"
| "scan_prepend v (Ended vs pending) = Ended (v # vs) pending"
| "scan_prepend v (Fraction vs p) = Fraction (v # vs) p"

function scan_components :: "nat \<Rightarrow> bool \<Rightarrow> string \<Rightarrow> char \<Rightarrow> time_scan" where
  "scan_components i has_separator p nxt =
     (case parse_digits p 2 of
        None \<Rightarrow> Malformed
      | Some (v, p1) \<Rightarrow>
          let c = peek nxt p1;
              sep = (if i = 0 then c = CHR '':'' else has_separator)
          in if tl p1 = [] then Ended [v] (c \<noteq> NUL)
             else if sep \<and> c = CHR '':'' then
               (if 2 \<le> i then Fraction [v] (tl p1)
                else scan_prepend v (scan_components (i + 1) sep (tl p1) nxt))
             else if c = CHR ''.'' \<or> c = CHR '','' then Fraction [v] (tl p1)
             else if \<not> sep then
               (if 2 \<le> i then Fraction [v] p1
                else scan_prepend v (scan_components (i + 1) sep p1 nxt))
             else Malformed)"
  by pat_completeness auto

termination
  by (relation "measure (\<lambda>(i, has_separator, p, nxt). 3 - i)") auto

declare scan_components.simps [simp del]

text \<open>
  A time or an offset, with the fraction: up to six digits are read and scaled to
  microseconds, further digits are skipped. The flag tells whether the scanning stopped at
  something else than \<open>NUL\<close>.
\<close>

definition time_of :: "int list \<Rightarrow> int \<Rightarrow> int \<times> int \<times> int \<times> int" where
  "time_of vs us = (let vals = vs @ replicate (3 - length vs) 0 in (vals ! 0, vals ! 1, vals ! 2, us))"

definition parse_hh_mm_ss_ff :: "string \<Rightarrow> char \<Rightarrow> ((int \<times> int \<times> int \<times> int) \<times> bool) option" where
  "parse_hh_mm_ss_ff tstr nxt =
     (case scan_components 0 True tstr nxt of
        Malformed \<Rightarrow> None
      | Ended vs pending \<Rightarrow> Some (time_of vs 0, pending)
      | Fraction vs p \<Rightarrow>
          let to_parse = min 6 (length p)
          in case parse_digits p to_parse of
               None \<Rightarrow> None
             | Some (f, p1) \<Rightarrow>
                 Some (time_of vs (f * 10 ^ (6 - to_parse)),
                       peek nxt (dropWhile is_ascii_digit p1) \<noteq> NUL))"

text \<open>
  The time with its zone. The zone starts at the first \<^verbatim>\<open>Z\<close>, \<^verbatim>\<open>+\<close> or \<^verbatim>\<open>-\<close>. Without a
  zone the time must have been read to its end; before a zone that is not checked. The
  offset is returned as its whole seconds and its microseconds, both signed.
\<close>

definition is_tz :: "char \<Rightarrow> bool" where
  "is_tz c = (c = CHR ''Z'' \<or> c = CHR ''+'' \<or> c = CHR ''-'')"

definition parse_isoformat_time ::
  "string \<Rightarrow> ((int \<times> int \<times> int \<times> int) \<times> (int \<times> int) option) option" where
  "parse_isoformat_time tstr =
     (let timestr = takeWhile (\<lambda>c. \<not> is_tz c) tstr;
          tail = dropWhile (\<lambda>c. \<not> is_tz c) tstr
      in case parse_hh_mm_ss_ff timestr (peek NUL tail) of
           None \<Rightarrow> None
         | Some (time_components, pending) \<Rightarrow>
             if tail = [] then (if pending then None else Some (time_components, None))
             else if hd tail = CHR ''Z'' then
               (if peek NUL (tl tail) \<noteq> NUL then None else Some (time_components, Some (0, 0)))
             else
               let tzsign = (if hd tail = CHR ''-'' then - 1 else 1)
               in case parse_hh_mm_ss_ff (tl tail) NUL of
                    None \<Rightarrow> None
                  | Some ((tzhour, tzminute, tzsecond, tzmicrosecond), pending) \<Rightarrow>
                      if pending then None
                      else Some (time_components,
                             Some (tzsign * (tzhour * 3600 + tzminute * 60 + tzsecond),
                                   tzsign * tzmicrosecond)))"

text \<open>
  The zone of the result, as its offset in microseconds. An offset of no whole seconds is
  UTC, whatever its microseconds; any other must lie strictly between \<open>-24\<close> and \<open>24\<close>
  hours.
\<close>

definition tzinfo_from_isoformat_results :: "(int \<times> int) option \<Rightarrow> py_error + int option" where
  "tzinfo_from_isoformat_results tz =
     (case tz of
        None \<Rightarrow> Inr None
      | Some (tzoffset, tz_useconds) \<Rightarrow>
          if tzoffset = 0 then Inr (Some 0)
          else
            let offset = tzoffset * 10 ^ 6 + tz_useconds
            in if - (86400 * 10 ^ 6) < offset \<and> offset < 86400 * 10 ^ 6
               then Inr (Some offset)
               else Inl ValueError)"

text \<open>
  The separator is one character, of one to four bytes; the time is what follows it.
\<close>

definition fromisoformat :: "string \<Rightarrow> py_error + datetime" where
  "fromisoformat date_string =
     (case sanitize_isoformat_str date_string of
        None \<Rightarrow> Inl ValueError
      | Some dtstr \<Rightarrow>
          if has_surrogate dtstr then Inl ValueError
          else case find_isoformat_datetime_separator dtstr of
              None \<Rightarrow> Inl ValueError
            | Some separator_location \<Rightarrow>
                (case parse_isoformat_date dtstr separator_location of
                   None \<Rightarrow> Inl ValueError
                 | Some date_components \<Rightarrow>
                     if length dtstr \<le> separator_location
                     then new_datetime date_components (0, 0, 0, 0) None
                     else
                       case parse_isoformat_time
                              (drop (separator_location + utf8_width (dtstr ! separator_location))
                                 dtstr) of
                         None \<Rightarrow> Inl ValueError
                       | Some (time_components, tz) \<Rightarrow>
                           (case tzinfo_from_isoformat_results tz of
                              Inl e \<Rightarrow> Inl e
                            | Inr zone \<Rightarrow> new_datetime date_components time_components zone)))"

section \<open>The host and the effects of a run\<close>

text \<open>
  What the program asks of its host is a parameter: the outcome of
  \<^verbatim>\<open>json.load(open(filename))\<close> for a path, whether a file can be written (\<open>None\<close>) or the
  write raises, and \<^verbatim>\<open>datetime.timestamp()\<close> on a naive value, which consults the local
  time zone of the machine.
\<close>

record host =
  read_json :: "string \<Rightarrow> py_error + document"
  write_json :: "string \<Rightarrow> py_error option"
  local_timestamp :: "datetime \<Rightarrow> py_error + double"

text \<open>One constructor for each \<^verbatim>\<open>print\<close> statement of the source, with the values it formats.\<close>

datatype message =
    MsgFileNotFound string
  | MsgInvalidJSON string
  | MsgInvalidTimestamp string
  | MsgSaved string
  | MsgSaveError string py_error
  | MsgRunningTests
  | MsgNoExpected
  | MsgTestingFormat1
  | MsgNoData1
  | MsgTransformed1 nat
  | MsgTestingFormat2
  | MsgNoData2
  | MsgTransformed2 nat
  | MsgCountMismatch nat nat
  | MsgRecordMismatch nat
  | MsgExpected json
  | MsgActual json
  | MsgAllPassed
  | MsgBanner
  | MsgRule
  | MsgLoading
  | MsgCouldNotLoad
  | MsgLoaded
  | MsgTransforming
  | MsgTotal nat
  | MsgSaving
  | MsgTesting
  | MsgSuccess
  | MsgSomeFailed

datatype event = Print message | Write string json

text \<open>
  A statement yields the events it caused, in order, and then either a value or the
  exception that left it.
\<close>

type_synonym 'a io = "event list \<times> (py_error + 'a)"

definition ret :: "'a \<Rightarrow> 'a io" where
  "ret x = ([], Inr x)"

definition raise :: "py_error \<Rightarrow> 'a io" where
  "raise e = ([], Inl e)"

definition lift :: "py_error + 'a \<Rightarrow> 'a io" where
  "lift r = ([], r)"

definition say :: "message \<Rightarrow> unit io" where
  "say m = ([Print m], Inr ())"

text \<open>
  \<^verbatim>\<open>print\<close> encodes its whole text for the standard output before it writes any of it. The
  standard output is taken to encode UTF-8 strictly, as it does under a UTF-8 locale (the
  messages of the program hold emoji). So every text can be printed but one that holds a
  lone surrogate: on it \<^verbatim>\<open>print\<close> raises \<^verbatim>\<open>UnicodeEncodeError\<close> and nothing is printed. The
  fixed messages hold no surrogate, nor do the file names, which are literals of the
  program, nor the records that \<^verbatim>\<open>run_tests\<close> shows (\<^verbatim>\<open>repr\<close> escapes a surrogate). A message
  that quotes a string \<open>s\<close> of the input is printed by \<open>say_quoting s\<close>.
\<close>

definition say_quoting :: "string \<Rightarrow> message \<Rightarrow> unit io" where
  "say_quoting s m = (if has_surrogate s then raise UnicodeEncodeError else say m)"

definition io_bind :: "'a io \<Rightarrow> ('a \<Rightarrow> 'b io) \<Rightarrow> 'b io" where
  "io_bind m f =
     (case m of
        (out, Inl e) \<Rightarrow> (out, Inl e)
      | (out, Inr x) \<Rightarrow> (case f x of (out', r) \<Rightarrow> (out @ out', r)))"

definition io_then :: "'a io \<Rightarrow> 'b io \<Rightarrow> 'b io" where
  "io_then m k = io_bind m (\<lambda>_. k)"

definition and_then :: "py_error + 'a \<Rightarrow> ('a \<Rightarrow> py_error + 'b) \<Rightarrow> py_error + 'b" where
  "and_then r f = (case r of Inl e \<Rightarrow> Inl e | Inr x \<Rightarrow> f x)"

text \<open>The files a run wrote, in order.\<close>

fun written :: "event list \<Rightarrow> (string \<times> json) list" where
  "written [] = []"
| "written (Write f v # es) = (f, v) # written es"
| "written (Print m # es) = written es"

section \<open>Operations on Python values\<close>

text \<open>\<^verbatim>\<open>key in d\<close>, \<^verbatim>\<open>d[key]\<close> and \<^verbatim>\<open>d.get(key, default)\<close> on a dict.\<close>

definition dict_contains :: "document \<Rightarrow> string \<Rightarrow> bool" where
  "dict_contains d k = (map_of d k \<noteq> None)"

definition dict_getitem :: "document \<Rightarrow> string \<Rightarrow> py_error + json" where
  "dict_getitem d k = (case map_of d k of None \<Rightarrow> Inl (KeyError k) | Some v \<Rightarrow> Inr v)"

definition dict_get :: "document \<Rightarrow> string \<Rightarrow> json \<Rightarrow> json" where
  "dict_get d k dflt = (case map_of d k of None \<Rightarrow> dflt | Some v \<Rightarrow> v)"

text \<open>
  \<^verbatim>\<open>entry[key]\<close> with a string key on any value: a dict looks the key up, a list and a string
  want integer indices, the other values are not subscriptable.
\<close>

fun getitem :: "json \<Rightarrow> string \<Rightarrow> py_error + json" where
  "getitem (JObj d) k = dict_getitem d k"
| "getitem _ k = Inl TypeError"

text \<open>
  \<^verbatim>\<open>for entry in v\<close> and \<^verbatim>\<open>len(v)\<close>: the elements of a list, the keys of a dict, the
  characters of a string; the other values are not iterable and have no length.
\<close>

fun py_iter :: "json \<Rightarrow> py_error + json list" where
  "py_iter (JList xs) = Inr xs"
| "py_iter (JObj d) = Inr (map (\<lambda>(k, v). JStr k) d)"
| "py_iter (JStr s) = Inr (map JStr (code_points s))"
| "py_iter _ = Inl TypeError"

fun py_len :: "json \<Rightarrow> py_error + nat" where
  "py_len (JList xs) = Inr (length xs)"
| "py_len (JObj d) = Inr (length d)"
| "py_len (JStr s) = Inr (length (code_points s))"
| "py_len _ = Inl TypeError"

text \<open>
  \<^verbatim>\<open>s.replace(old, new)\<close> for an ASCII character \<^verbatim>\<open>old\<close>: every occurrence is replaced (its
  byte is no byte of another character).
\<close>

definition str_replace :: "char \<Rightarrow> string \<Rightarrow> string \<Rightarrow> string" where
  "str_replace old new s = concat (map (\<lambda>c. if c = old then new else [c]) s)"

text \<open>
  \<^verbatim>\<open>==\<close> on values that \<^verbatim>\<open>json.load\<close> built. Booleans, integers and floats compare by
  their numeric value; every \<^verbatim>\<open>NaN\<close> of the decoder is one object, which the comparison of
  containers finds equal to itself; a dict equals a dict of the same size that maps each
  of its keys to an equal value.
\<close>

fun num_value :: "json \<Rightarrow> (int \<times> int) option" where
  "num_value (JBool b) = Some (if b then 1 else 0, 0)"
| "num_value (JInt i) = Some (i, 0)"
| "num_value (JFloat (Finite m e)) = Some (m, e)"
| "num_value _ = None"

definition num_eq :: "json \<Rightarrow> json \<Rightarrow> bool" where
  "num_eq a b =
     (case (num_value a, num_value b) of
        (Some (m1, e1), Some (m2, e2)) \<Rightarrow> m1 * 2 ^ nat (e1 - e2) = m2 * 2 ^ nat (e2 - e1)
      | (None, None) \<Rightarrow>
          (a = JFloat PosInf \<or> a = JFloat NegInf \<or> a = JFloat NaN) \<and> a = b
      | _ \<Rightarrow> False)"

fun py_eq :: "json \<Rightarrow> json \<Rightarrow> bool"
  and py_eq_list :: "json list \<Rightarrow> json list \<Rightarrow> bool"
  and py_eq_items :: "(string \<times> json) list \<Rightarrow> (string \<times> json) list \<Rightarrow> bool" where
  "py_eq JNull b = (b = JNull)"
| "py_eq (JStr s) b = (b = JStr s)"
| "py_eq (JBool x) b = num_eq (JBool x) b"
| "py_eq (JInt i) b = num_eq (JInt i) b"
| "py_eq (JFloat x) b = num_eq (JFloat x) b"
| "py_eq (JList xs) b = (case b of JList ys \<Rightarrow> py_eq_list xs ys | _ \<Rightarrow> False)"
| "py_eq (JObj d) b =
     (case b of JObj d' \<Rightarrow> length d = length d' \<and> py_eq_items d d' | _ \<Rightarrow> False)"
| "py_eq_list [] ys = (ys = [])"
| "py_eq_list (x # xs) ys =
     (case ys of [] \<Rightarrow> False | y # ys' \<Rightarrow> py_eq x y \<and> py_eq_list xs ys')"
| "py_eq_items [] d' = True"
| "py_eq_items ((k, v) # d) d' =
     ((case map_of d' k of None \<Rightarrow> False | Some w \<Rightarrow> py_eq v w) \<and> py_eq_items d d')"

section \<open>The functions of \<^verbatim>\<open>main.py\<close>\<close>

subsection \<open>\<^verbatim>\<open>load_json_file\<close>\<close>

text \<open>
  The two exceptions named by the \<^verbatim>\<open>except\<close> clauses are reported and turned into the empty
  dict; any other exception of the read leaves the function.
\<close>

definition load_json_file :: "host \<Rightarrow> string \<Rightarrow> document io" where
  "load_json_file h filename =
     (case read_json h filename of
        Inr data \<Rightarrow> ret data
      | Inl FileNotFoundError \<Rightarrow> io_then (say (MsgFileNotFound filename)) (ret [])
      | Inl JSONDecodeError \<Rightarrow> io_then (say (MsgInvalidJSON filename)) (ret [])
      | Inl e \<Rightarrow> raise e)"

subsection \<open>\<^verbatim>\<open>iso_to_milliseconds\<close>\<close>

text \<open>\<^verbatim>\<open>dt.timestamp()\<close>: the host decides for a naive value, the offset for an aware one.\<close>

definition timestamp :: "host \<Rightarrow> datetime \<Rightarrow> py_error + double" where
  "timestamp h dt =
     (case tzinfo dt of
        None \<Rightarrow> local_timestamp h dt
      | Some off \<Rightarrow> Inr (total_seconds (since_epoch dt off)))"

text \<open>
  The body of the \<^verbatim>\<open>try\<close>. The argument is whatever the record holds under
  \<^verbatim>\<open>timestamp\<close>; only a string has the method \<^verbatim>\<open>replace\<close>.
\<close>

fun iso_to_milliseconds_try :: "host \<Rightarrow> json \<Rightarrow> py_error + int" where
  "iso_to_milliseconds_try h (JStr iso_timestamp) =
     and_then (fromisoformat (str_replace (CHR ''Z'') ''+00:00'' iso_timestamp)) (\<lambda>dt.
     and_then (timestamp h dt) (\<lambda>t.
     py_int (double_mul t (double_of_int 1000))))"
| "iso_to_milliseconds_try h _ = Inl AttributeError"

text \<open>
  \<^verbatim>\<open>except ValueError\<close> prints the diagnostic and returns \<open>0\<close>; every other exception
  leaves the function. The diagnostic quotes the argument, and nothing protects the
  \<^verbatim>\<open>print\<close> of the handler: when it raises, its exception leaves the function and no \<open>0\<close> is
  returned. (Only a string reaches the handler: any other argument has raised
  \<^verbatim>\<open>AttributeError\<close>.)
\<close>

definition iso_to_milliseconds :: "host \<Rightarrow> json \<Rightarrow> int io" where
  "iso_to_milliseconds h iso_timestamp =
     (case iso_to_milliseconds_try h iso_timestamp of
        Inr ms \<Rightarrow> ret ms
      | Inl e \<Rightarrow>
          if is_ValueError e
          then (let quoted = (case iso_timestamp of JStr s \<Rightarrow> s | _ \<Rightarrow> [])
                in io_then (say_quoting quoted (MsgInvalidTimestamp quoted)) (ret 0))
          else raise e)"

subsection \<open>\<^verbatim>\<open>transform_format1_to_unified\<close>\<close>

text \<open>
  The body of the loop: the timestamp is read and converted first, then the dict literal
  reads the other four fields in the order written.
\<close>

definition unified_entry1 :: "host \<Rightarrow> json \<Rightarrow> json io" where
  "unified_entry1 h entry =
     io_bind (lift (getitem entry ''timestamp'')) (\<lambda>ts.
     io_bind (iso_to_milliseconds h ts) (\<lambda>timestamp_ms.
     lift (
       and_then (getitem entry ''device_id'') (\<lambda>device_id.
       and_then (getitem entry ''temperature'') (\<lambda>temperature.
       and_then (getitem entry ''humidity'') (\<lambda>humidity.
       and_then (getitem entry ''pressure'') (\<lambda>pressure.
       Inr (JObj [(''device_id'', device_id),
                  (''timestamp'', JInt timestamp_ms),
                  (''temperature'', temperature),
                  (''humidity'', humidity),
                  (''pressure'', pressure)]))))))))"

fun format1_loop :: "host \<Rightarrow> json list \<Rightarrow> json list \<Rightarrow> json list io" where
  "format1_loop h [] unified_data = ret unified_data"
| "format1_loop h (entry # entries) unified_data =
     io_bind (unified_entry1 h entry) (\<lambda>unified_entry.
     format1_loop h entries (unified_data @ [unified_entry]))"

definition transform_format1_to_unified :: "host \<Rightarrow> document \<Rightarrow> json list io" where
  "transform_format1_to_unified h data =
     (if \<not> dict_contains data ''telemetry'' then ret []
      else io_bind (lift (and_then (dict_getitem data ''telemetry'') py_iter)) (\<lambda>entries.
           format1_loop h entries []))"

subsection \<open>\<^verbatim>\<open>transform_format2_to_unified\<close>\<close>

definition unified_entry2 :: "json \<Rightarrow> py_error + json" where
  "unified_entry2 entry =
     and_then (getitem entry ''id'') (\<lambda>device_id.
     and_then (getitem entry ''ts'') (\<lambda>ts.
     and_then (getitem entry ''temp'') (\<lambda>temperature.
     and_then (getitem entry ''hum'') (\<lambda>humidity.
     and_then (getitem entry ''press'') (\<lambda>pressure.
     Inr (JObj [(''device_id'', device_id),
                (''timestamp'', ts),
                (''temperature'', temperature),
                (''humidity'', humidity),
                (''pressure'', pressure)]))))))"

fun format2_loop :: "json list \<Rightarrow> json list \<Rightarrow> py_error + json list" where
  "format2_loop [] unified_data = Inr unified_data"
| "format2_loop (entry # entries) unified_data =
     and_then (unified_entry2 entry) (\<lambda>unified_entry.
     format2_loop entries (unified_data @ [unified_entry]))"

definition transform_format2_to_unified :: "document \<Rightarrow> py_error + json list" where
  "transform_format2_to_unified data =
     (if \<not> dict_contains data ''sensors'' then Inr []
      else and_then (and_then (dict_getitem data ''sensors'') py_iter) (\<lambda>entries.
           format2_loop entries []))"

subsection \<open>\<^verbatim>\<open>save_unified_data\<close>\<close>

text \<open>\<^verbatim>\<open>except Exception\<close> reports any failure of the write; nothing leaves the function.\<close>

definition save_unified_data :: "host \<Rightarrow> json list \<Rightarrow> string \<Rightarrow> unit io" where
  "save_unified_data h unified_data filename =
     (let output = JObj [(''unified_telemetry'', JList unified_data)]
      in case write_json h filename of
           None \<Rightarrow> ([Write filename output, Print (MsgSaved filename)], Inr ())
         | Some e \<Rightarrow> say (MsgSaveError filename e))"

subsection \<open>\<^verbatim>\<open>run_tests\<close>\<close>

text \<open>
  The loop over \<^verbatim>\<open>zip(all_unified, expected_records)\<close>; \<open>i\<close> is the index of
  \<^verbatim>\<open>enumerate\<close>. It yields \<open>False\<close> at the first record that differs.
\<close>

fun compare_records :: "nat \<Rightarrow> json list \<Rightarrow> json list \<Rightarrow> bool io" where
  "compare_records i (actual # actuals) (expected # expecteds) =
     (if \<not> py_eq actual expected
      then io_then (say (MsgRecordMismatch (i + 1)))
          (io_then (say (MsgExpected expected))
          (io_then (say (MsgActual actual))
          (ret False)))
      else compare_records (i + 1) actuals expecteds)"
| "compare_records i _ _ = ret True"

definition run_tests :: "host \<Rightarrow> bool io" where
  "run_tests h =
     io_then (say MsgRunningTests)
    (io_bind (load_json_file h ''data-result.json'') (\<lambda>expected_data.
     if expected_data = [] then io_then (say MsgNoExpected) (ret False)
     else
     io_then (say MsgTestingFormat1)
    (io_bind (load_json_file h ''data-1.json'') (\<lambda>data1.
     if data1 = [] then io_then (say MsgNoData1) (ret False)
     else
     io_bind (transform_format1_to_unified h data1) (\<lambda>unified1.
     io_then (say (MsgTransformed1 (length unified1)))
    (io_then (say MsgTestingFormat2)
    (io_bind (load_json_file h ''data-2.json'') (\<lambda>data2.
     if data2 = [] then io_then (say MsgNoData2) (ret False)
     else
     io_bind (lift (transform_format2_to_unified data2)) (\<lambda>unified2.
     io_then (say (MsgTransformed2 (length unified2)))
    (let all_unified = unified1 @ unified2;
         expected_records = dict_get expected_data ''unified_telemetry'' (JList [])
     in
     io_bind (lift (py_len expected_records)) (\<lambda>n.
     if length all_unified \<noteq> n
     then io_then (say (MsgCountMismatch n (length all_unified))) (ret False)
     else
     io_bind (lift (py_iter expected_records)) (\<lambda>expecteds.
     io_bind (compare_records 0 all_unified expecteds) (\<lambda>same.
     if same then io_then (say MsgAllPassed) (ret True) else ret False)))))))))))))"

subsection \<open>\<^verbatim>\<open>main\<close>\<close>

definition main :: "host \<Rightarrow> unit io" where
  "main h =
     io_then (say MsgBanner)
    (io_then (say MsgRule)
    (io_then (say MsgLoading)
    (io_bind (load_json_file h ''data-1.json'') (\<lambda>data1.
     io_bind (load_json_file h ''data-2.json'') (\<lambda>data2.
     if data1 = [] \<or> data2 = [] then say MsgCouldNotLoad
     else
     io_then (say MsgLoaded)
    (io_then (say MsgTransforming)
    (io_bind (transform_format1_to_unified h data1) (\<lambda>unified1.
     io_bind (lift (transform_format2_to_unified data2)) (\<lambda>unified2.
     let all_unified_data = unified1 @ unified2
     in
     io_then (say (MsgTotal (length all_unified_data)))
    (io_then (say MsgSaving)
    (io_then (save_unified_data h all_unified_data ''output-unified.json'')
    (io_then (say MsgTesting)
    (io_bind (run_tests h) (\<lambda>test_passed.
     if test_passed then say MsgSuccess else say MsgSomeFailed))))))))))))))"

section \<open>Notions of the specification\<close>

text \<open>The field names of the three record shapes.\<close>

definition format1_fields :: "string list" where
  "format1_fields = [''device_id'', ''timestamp'', ''temperature'', ''humidity'', ''pressure'']"

definition format2_fields :: "string list" where
  "format2_fields = [''id'', ''ts'', ''temp'', ''hum'', ''press'']"

definition unified_fields :: "string list" where
  "unified_fields = [''device_id'', ''timestamp'', ''temperature'', ''humidity'', ''pressure'']"

fun is_object :: "json \<Rightarrow> bool" where
  "is_object (JObj d) = True"
| "is_object _ = False"

text \<open>A record that holds every field of a list.\<close>

fun has_fields :: "string list \<Rightarrow> json \<Rightarrow> bool" where
  "has_fields ks (JObj d) = list_all (dict_contains d) ks"
| "has_fields ks _ = False"

fun field :: "json \<Rightarrow> string \<Rightarrow> json option" where
  "field (JObj d) k = map_of d k"
| "field _ k = None"

text \<open>A statement that ends with a value, not with an exception.\<close>

definition returns :: "'a io \<Rightarrow> bool" where
  "returns m = (case snd m of Inr _ \<Rightarrow> True | Inl _ \<Rightarrow> False)"

text \<open>
  The normaliser returns on the timestamp a record holds (a record without one is not
  constrained here).
\<close>

definition timestamp_accepted :: "host \<Rightarrow> json \<Rightarrow> bool" where
  "timestamp_accepted h entry =
     (case field entry ''timestamp'' of
        None \<Rightarrow> True
      | Some ts \<Rightarrow> returns (iso_to_milliseconds h ts))"

text \<open>
  A timestamp that states its zone, or is no timestamp and can be quoted: a string that
  \<^verbatim>\<open>fromisoformat\<close> reads with a UTC offset (the suffix \<^verbatim>\<open>Z\<close> counts as one), or that it
  rejects and that holds no lone surrogate.
\<close>

definition zone_explicit :: "json \<Rightarrow> bool" where
  "zone_explicit ts =
     (case ts of
        JStr s \<Rightarrow>
          (case fromisoformat (str_replace (CHR ''Z'') ''+00:00'' s) of
             Inl e \<Rightarrow> \<not> has_surrogate s
           | Inr dt \<Rightarrow> tzinfo dt \<noteq> None)
      | _ \<Rightarrow> False)"

text \<open>The types of the data model: string, integer, number.\<close>

fun is_string :: "json \<Rightarrow> bool" where
  "is_string (JStr s) = True"
| "is_string _ = False"

fun is_integer :: "json \<Rightarrow> bool" where
  "is_integer (JInt i) = True"
| "is_integer _ = False"

fun is_number :: "json \<Rightarrow> bool" where
  "is_number (JInt i) = True"
| "is_number (JFloat x) = True"
| "is_number _ = False"

fun typed :: "(json \<Rightarrow> bool) \<Rightarrow> json option \<Rightarrow> bool" where
  "typed P (Some v) = P v"
| "typed P None = False"

definition unified_typed :: "json \<Rightarrow> bool" where
  "unified_typed r =
     (typed is_string (field r ''device_id'') \<and> typed is_integer (field r ''timestamp'')
      \<and> typed is_number (field r ''temperature'') \<and> typed is_number (field r ''humidity'')
      \<and> typed is_number (field r ''pressure''))"

definition format1_typed :: "json \<Rightarrow> bool" where
  "format1_typed r =
     (typed is_string (field r ''device_id'') \<and> typed is_string (field r ''timestamp'')
      \<and> typed is_number (field r ''temperature'') \<and> typed is_number (field r ''humidity'')
      \<and> typed is_number (field r ''pressure''))"

definition format2_typed :: "json \<Rightarrow> bool" where
  "format2_typed r =
     (typed is_string (field r ''id'') \<and> typed is_integer (field r ''ts'')
      \<and> typed is_number (field r ''temp'') \<and> typed is_number (field r ''hum'')
      \<and> typed is_number (field r ''press''))"

text \<open>
  The value the specification asks of the normaliser, in its words: the integer number of
  milliseconds elapsed since \<^verbatim>\<open>1970-01-01T00:00:00Z\<close>, truncated toward zero. It is taken
  from the exact count of microseconds, with no float in between.
\<close>

definition spec_milliseconds :: "datetime \<Rightarrow> int option" where
  "spec_milliseconds dt =
     map_option (\<lambda>off. let us = since_epoch dt off in sgn us * (\<bar>us\<bar> div 1000)) (tzinfo dt)"

text \<open>The elements a mapper iterates over: what the document holds under the key.\<close>

definition entries :: "document \<Rightarrow> string \<Rightarrow> json list" where
  "entries data k =
     (case map_of data k of
        None \<Rightarrow> []
      | Some v \<Rightarrow> (case py_iter v of Inl e \<Rightarrow> [] | Inr xs \<Rightarrow> xs))"

subsection \<open>Example inputs\<close>

text \<open>
  A host that holds the two input files (or fails to load them), has no fixture
  \<^verbatim>\<open>data-result.json\<close>, accepts every write and cannot convert naive values.
\<close>

definition host_of :: "py_error + document \<Rightarrow> py_error + document \<Rightarrow> host" where
  "host_of file1 file2 =
     \<lparr>read_json = (\<lambda>filename.
          if filename = ''data-1.json'' then file1
          else if filename = ''data-2.json'' then file2
          else Inl FileNotFoundError),
      write_json = (\<lambda>filename. None),
      local_timestamp = (\<lambda>dt. Inl OSError)\<rparr>"

text \<open>The two documents of the scenario of the specification.\<close>

definition scenario_record1 :: json where
  "scenario_record1 =
     JObj [(''device_id'', JStr ''sensor_001''),
           (''timestamp'', JStr ''2023-10-15T14:30:25.123Z''),
           (''temperature'', JFloat (Finite 47 (- 1))),
           (''humidity'', JFloat (Finite 4588042120383693 (- 46))),
           (''pressure'', JFloat (Finite 4053 (- 2)))]"

definition scenario_record2 :: json where
  "scenario_record2 =
     JObj [(''id'', JStr ''sensor_002''),
           (''ts'', JInt 1697372225123),
           (''temp'', JFloat (Finite 5 2)),
           (''hum'', JFloat (Finite 25 1)),
           (''press'', JFloat (Finite 125 3))]"

definition scenario1 :: document where
  "scenario1 = [(''telemetry'', JList [scenario_record1])]"

definition scenario2 :: document where
  "scenario2 = [(''sensors'', JList [scenario_record2])]"

definition scenario_host :: host where
  "scenario_host = host_of (Inr scenario1) (Inr scenario2)"

text \<open>A Format-A record whose timestamp is a number of milliseconds, as Format-B has it.\<close>

definition numeric_timestamp_record :: json where
  "numeric_timestamp_record =
     JObj [(''device_id'', JStr ''sensor_001''),
           (''timestamp'', JInt 1697372225123),
           (''temperature'', JFloat (Finite 47 (- 1))),
           (''humidity'', JFloat (Finite 4588042120383693 (- 46))),
           (''pressure'', JFloat (Finite 4053 (- 2)))]"

text \<open>A Format-B record whose values have other types than the data model declares.\<close>

definition untyped_record2 :: json where
  "untyped_record2 =
     JObj [(''id'', JInt 7), (''ts'', JStr ''noon''), (''temp'', JNull),
           (''hum'', JBool True), (''press'', JStr ''high'')]"

text \<open>A Format-A record that holds a numeric timestamp and nothing else.\<close>

definition timestamp_only_record :: json where
  "timestamp_only_record = JObj [(''timestamp'', JInt 1697372225123)]"

text \<open>The record the Format-B mapper builds from \<open>untyped_record2\<close>.\<close>

definition untyped_unified :: json where
  "untyped_unified =
     JObj [(''device_id'', JInt 7), (''timestamp'', JStr ''noon''), (''temperature'', JNull),
           (''humidity'', JBool True), (''pressure'', JStr ''high'')]"

text \<open>The two records the mappers build from the scenario.\<close>

definition scenario_unified1 :: json where
  "scenario_unified1 =
     JObj [(''device_id'', JStr ''sensor_001''),
           (''timestamp'', JInt 1697380225123),
           (''temperature'', JFloat (Finite 47 (- 1))),
           (''humidity'', JFloat (Finite 4588042120383693 (- 46))),
           (''pressure'', JFloat (Finite 4053 (- 2)))]"

definition scenario_unified2 :: json where
  "scenario_unified2 =
     JObj [(''device_id'', JStr ''sensor_002''),
           (''timestamp'', JInt 1697372225123),
           (''temperature'', JFloat (Finite 5 2)),
           (''humidity'', JFloat (Finite 25 1)),
           (''pressure'', JFloat (Finite 125 3))]"

text \<open>
  The string that \<^verbatim>\<open>json.load\<close> builds from the JSON text \<^verbatim>\<open>"\ud800"\<close>: one character, the
  lone surrogate \<^verbatim>\<open>U+D800\<close>.
\<close>

definition lone_surrogate :: string where
  "lone_surrogate = [CHR 0xED, CHR 0xA0, CHR 0x80]"

text \<open>A host whose first input file parses to the empty object.\<close>

definition empty_object_host :: host where
  "empty_object_host = host_of (Inr []) (Inr scenario2)"

section \<open>Lemmas on the effects and the loops\<close>

lemma io_bind_Inl [simp]: "io_bind (out, Inl e) f = (out, Inl e)"
  by (simp add: io_bind_def)

lemma io_bind_Inr [simp]: "io_bind (out, Inr x) f = (out @ fst (f x), snd (f x))"
  by (simp add: io_bind_def split: prod.splits)

lemma snd_io_bind: "snd (io_bind m f) = (case snd m of Inl e \<Rightarrow> Inl e | Inr x \<Rightarrow> snd (f x))"
  by (cases m) (auto split: sum.splits)

lemma fst_io_bind: "fst (io_bind m f) = fst m @ (case snd m of Inl e \<Rightarrow> [] | Inr x \<Rightarrow> fst (f x))"
  by (cases m) (auto split: sum.splits)

lemma and_then_simps [simp]:
  "and_then (Inl e) f = Inl e"
  "and_then (Inr x) f = f x"
  by (simp_all add: and_then_def)

lemma and_then_eq_Inr: "and_then r f = Inr y \<longleftrightarrow> (\<exists>x. r = Inr x \<and> f x = Inr y)"
  by (cases r) auto

lemma written_append [simp]: "written (xs @ ys) = written xs @ written ys"
  by (induction xs rule: written.induct) auto

lemma dict_getitem_eq_Inr: "dict_getitem d k = Inr v \<longleftrightarrow> map_of d k = Some v"
  by (simp add: dict_getitem_def split: option.splits)

lemma dict_getitem_eq_Inl: "dict_getitem d k = Inl e \<longleftrightarrow> e = KeyError k \<and> \<not> dict_contains d k"
  by (auto simp: dict_getitem_def dict_contains_def split: option.splits)

lemma format2_loop_Inr:
  "format2_loop xs acc = Inr ys \<longleftrightarrow>
     (\<exists>zs. ys = acc @ zs \<and> list_all2 (\<lambda>x z. unified_entry2 x = Inr z) xs zs)"
proof (induction xs arbitrary: acc)
  case Nil
  then show ?case by auto
next
  case (Cons x xs)
  show ?case
  proof (cases "unified_entry2 x")
    case (Inl e)
    then show ?thesis by (auto simp: list_all2_Cons1)
  next
    case (Inr z)
    then show ?thesis by (auto simp: Cons.IH list_all2_Cons1)
  qed
qed

lemma format2_loop_Inl:
  "format2_loop xs acc = Inl e \<Longrightarrow> \<exists>x\<in>set xs. unified_entry2 x = Inl e"
proof (induction xs arbitrary: acc)
  case Nil
  then show ?case by simp
next
  case (Cons x xs)
  then show ?case by (cases "unified_entry2 x") auto
qed

lemma iso_to_milliseconds_events:
  "fst (iso_to_milliseconds h ts) = [] \<or>
   (\<exists>s. fst (iso_to_milliseconds h ts) = [Print (MsgInvalidTimestamp s)])"
  by (simp add: iso_to_milliseconds_def ret_def raise_def say_def say_quoting_def io_then_def
      Let_def split: sum.splits)

lemma written_iso_to_milliseconds [simp]: "written (fst (iso_to_milliseconds h ts)) = []"
  using iso_to_milliseconds_events [of h ts] by auto

lemma fst_lift [simp]: "fst (lift r) = []"
  by (simp add: lift_def)

lemma snd_lift [simp]: "snd (lift r) = r"
  by (simp add: lift_def)

lemma written_unified_entry1 [simp]: "written (fst (unified_entry1 h entry)) = []"
  by (simp add: unified_entry1_def fst_io_bind split: sum.splits)

lemma written_format1_loop [simp]: "written (fst (format1_loop h xs acc)) = []"
  by (induction xs arbitrary: acc) (simp_all add: ret_def fst_io_bind split: sum.splits)

lemma format1_loop_Inr:
  "snd (format1_loop h xs acc) = Inr ys \<longleftrightarrow>
     (\<exists>zs. ys = acc @ zs \<and> list_all2 (\<lambda>x z. snd (unified_entry1 h x) = Inr z) xs zs)"
proof (induction xs arbitrary: acc)
  case Nil
  then show ?case by (auto simp: ret_def)
next
  case (Cons x xs)
  show ?case
  proof (cases "snd (unified_entry1 h x)")
    case (Inl e)
    then show ?thesis by (auto simp: snd_io_bind list_all2_Cons1)
  next
    case (Inr z)
    then show ?thesis by (auto simp: snd_io_bind Cons.IH list_all2_Cons1)
  qed
qed

lemma format1_loop_Inl:
  "snd (format1_loop h xs acc) = Inl e \<Longrightarrow> \<exists>x\<in>set xs. snd (unified_entry1 h x) = Inl e"
proof (induction xs arbitrary: acc)
  case Nil
  then show ?case by (simp add: ret_def)
next
  case (Cons x xs)
  then show ?case by (cases "snd (unified_entry1 h x)") (auto simp: snd_io_bind)
qed

lemma unified_entry2_Inr:
  "unified_entry2 entry = Inr r \<longleftrightarrow>
     (\<exists>d v1 v2 v3 v4 v5. entry = JObj d
        \<and> map_of d ''id'' = Some v1 \<and> map_of d ''ts'' = Some v2
        \<and> map_of d ''temp'' = Some v3 \<and> map_of d ''hum'' = Some v4
        \<and> map_of d ''press'' = Some v5
        \<and> r = JObj [(''device_id'', v1), (''timestamp'', v2), (''temperature'', v3),
                    (''humidity'', v4), (''pressure'', v5)])"
  by (cases entry) (auto simp: unified_entry2_def and_then_eq_Inr dict_getitem_eq_Inr)

lemma and_then_eq_Inl:
  "and_then r f = Inl e \<longleftrightarrow> r = Inl e \<or> (\<exists>x. r = Inr x \<and> f x = Inl e)"
  by (cases r) auto

lemma unified_entry2_Inl:
  "unified_entry2 (JObj d) = Inl e \<Longrightarrow>
     \<exists>k\<in>set [''id'', ''ts'', ''temp'', ''hum'', ''press''].
        e = KeyError k \<and> \<not> dict_contains d k"
  by (auto simp: unified_entry2_def and_then_eq_Inl dict_getitem_eq_Inl)

lemma unified_entry1_Inr:
  "snd (unified_entry1 h entry) = Inr r \<longleftrightarrow>
     (\<exists>d ts ms v1 v3 v4 v5. entry = JObj d
        \<and> map_of d ''timestamp'' = Some ts \<and> snd (iso_to_milliseconds h ts) = Inr ms
        \<and> map_of d ''device_id'' = Some v1
        \<and> map_of d ''temperature'' = Some v3 \<and> map_of d ''humidity'' = Some v4
        \<and> map_of d ''pressure'' = Some v5
        \<and> r = JObj [(''device_id'', v1), (''timestamp'', JInt ms), (''temperature'', v3),
                    (''humidity'', v4), (''pressure'', v5)])"
  by (cases entry)
    (auto simp: unified_entry1_def snd_io_bind and_then_eq_Inr dict_getitem_eq_Inr
      dict_getitem_eq_Inl dict_contains_def split: sum.splits)

lemma unified_entry1_Inl:
  "snd (unified_entry1 h (JObj d)) = Inl e \<Longrightarrow>
     (\<exists>k\<in>set [''timestamp'', ''device_id'', ''temperature'', ''humidity'', ''pressure''].
        e = KeyError k \<and> \<not> dict_contains d k)
     \<or> (\<exists>ts. map_of d ''timestamp'' = Some ts \<and> snd (iso_to_milliseconds h ts) = Inl e)"
  by (auto simp: unified_entry1_def snd_io_bind and_then_eq_Inl dict_getitem_eq_Inl
      dict_getitem_eq_Inr split: sum.splits)

lemma written_load_json_file [simp]: "written (fst (load_json_file h f)) = []"
  by (simp add: load_json_file_def ret_def raise_def say_def io_then_def
      split: sum.splits py_error.splits)

lemma written_transform_format1 [simp]:
  "written (fst (transform_format1_to_unified h data)) = []"
  by (simp add: transform_format1_to_unified_def ret_def fst_io_bind split: sum.splits)

lemma written_compare_records [simp]: "written (fst (compare_records i as es)) = []"
  by (induction i as es rule: compare_records.induct)
    (simp_all add: ret_def say_def io_then_def)

lemma written_run_tests [simp]: "written (fst (run_tests h)) = []"
  by (simp add: run_tests_def io_then_def fst_io_bind say_def ret_def Let_def
      split: sum.splits)

section \<open>Evaluating the float arithmetic\<close>

text \<open>\<open>bit_length\<close> on a binary numeral, so that the simplifier computes it digit by digit.\<close>

lemma bit_length_numeral [simp]:
  "bit_length 0 = 0"
  "bit_length 1 = 1"
  "bit_length (Suc 0) = 1"
  "bit_length (numeral Num.One) = 1"
  "bit_length (numeral (Num.Bit0 k)) = Suc (bit_length (numeral k))"
  "bit_length (numeral (Num.Bit1 k)) = Suc (bit_length (numeral k))"
proof -
  show "bit_length 0 = 0" by (simp add: bit_length.simps)
  show "bit_length 1 = 1" by (simp add: bit_length.simps)
  show "bit_length (Suc 0) = 1" by (simp add: bit_length.simps)
  show "bit_length (numeral Num.One) = 1" by (simp add: bit_length.simps)
  have "(numeral (Num.Bit0 k) :: nat) div 2 = numeral k" by simp
  then show "bit_length (numeral (Num.Bit0 k)) = Suc (bit_length (numeral k))"
    by (subst bit_length.simps) simp
  have "(numeral (Num.Bit1 k) :: nat) div 2 = numeral k" by simp
  then show "bit_length (numeral (Num.Bit1 k)) = Suc (bit_length (numeral k))"
    by (subst bit_length.simps) simp
qed

lemmas float_eval =
  total_seconds_def int_truediv_def double_of_int_def round_double_def round_half_even_def Let_def

lemmas calendar_eval =
  since_epoch_def ymd2ord_def days_before_year_def days_before_month_def DAYS_IN_MONTH_def
  is_leap_def

section \<open>The timestamp normaliser\<close>

lemma fromisoformat_error: "fromisoformat s = Inl e \<Longrightarrow> e = ValueError"
  by (auto simp: fromisoformat_def new_datetime_def tzinfo_from_isoformat_results_def Let_def
      split: option.splits if_splits prod.splits sum.splits)

text \<open>An ASCII text that follows a string adds no surrogate to it.\<close>

lemma has_surrogate_append:
  assumes "\<not> has_surrogate (c # t)" and "(of_char c :: nat) < 160"
  shows "has_surrogate (s @ c # t) = has_surrogate s"
  using assms by (induction s rule: has_surrogate.induct) auto

lemma has_surrogate_suffixes:
  "has_surrogate (s @ ''Z'') = has_surrogate s"
  "has_surrogate (s @ ''+00:00'') = has_surrogate s"
  by (simp_all add: has_surrogate_append)

lemma str_replace_append:
  "str_replace c new (s @ t) = str_replace c new s @ str_replace c new t"
  by (simp add: str_replace_def)

lemma snd_iso_to_milliseconds:
  "snd (iso_to_milliseconds h (JStr s)) =
     (case iso_to_milliseconds_try h (JStr s) of
        Inr ms \<Rightarrow> Inr ms
      | Inl e \<Rightarrow>
          if is_ValueError e
          then (if has_surrogate s then Inl UnicodeEncodeError else Inr 0)
          else Inl e)"
  by (simp add: iso_to_milliseconds_def ret_def raise_def say_def say_quoting_def io_then_def
      split: sum.splits)

text \<open>What the handler does with a string that \<^verbatim>\<open>fromisoformat\<close> rejects.\<close>

lemma iso_to_milliseconds_rejected:
  assumes "fromisoformat (str_replace (CHR ''Z'') ''+00:00'' s) = Inl e"
  shows "iso_to_milliseconds h (JStr s) =
     (if has_surrogate s then ([], Inl UnicodeEncodeError)
      else ([Print (MsgInvalidTimestamp s)], Inr 0))"
proof -
  from assms have "e = ValueError" by (rule fromisoformat_error)
  with assms have "iso_to_milliseconds_try h (JStr s) = Inl ValueError" by simp
  then show ?thesis
    by (simp add: iso_to_milliseconds_def io_then_def say_def say_quoting_def ret_def raise_def)
qed

lemma fromisoformat_2023:
  "fromisoformat ''2023-10-15T14:30:25.123+00:00'' =
     Inr \<lparr>year = 2023, month = 10, day = 15, hour = 14, minute = 30, second = 25,
          microsecond = 123000, tzinfo = Some 0\<rparr>"
  by code_simp

lemma millis_2023:
  "py_int (double_mul (total_seconds (since_epoch
      \<lparr>year = 2023, month = 10, day = 15, hour = 14, minute = 30, second = 25,
       microsecond = 123000, tzinfo = Some 0\<rparr> 0)) (double_of_int 1000)) = Inr 1697380225123"
  by (simp add: calendar_eval float_eval)

lemma iso_2023_offset:
  "iso_to_milliseconds h (JStr ''2023-10-15T14:30:25.123+00:00'') = ([], Inr 1697380225123)"
proof -
  have "str_replace (CHR ''Z'') ''+00:00'' ''2023-10-15T14:30:25.123+00:00''
      = ''2023-10-15T14:30:25.123+00:00''"
    by (simp add: str_replace_def)
  then have "iso_to_milliseconds_try h (JStr ''2023-10-15T14:30:25.123+00:00'') = Inr 1697380225123"
    by (simp add: fromisoformat_2023 timestamp_def millis_2023)
  then show ?thesis by (simp add: iso_to_milliseconds_def ret_def)
qed

lemma iso_2023_Z:
  "iso_to_milliseconds h (JStr ''2023-10-15T14:30:25.123Z'') = ([], Inr 1697380225123)"
proof -
  have "str_replace (CHR ''Z'') ''+00:00'' ''2023-10-15T14:30:25.123Z''
      = ''2023-10-15T14:30:25.123+00:00''"
    by (simp add: str_replace_def)
  then have "iso_to_milliseconds_try h (JStr ''2023-10-15T14:30:25.123Z'') = Inr 1697380225123"
    by (simp add: fromisoformat_2023 timestamp_def millis_2023)
  then show ?thesis by (simp add: iso_to_milliseconds_def ret_def)
qed

lemma fromisoformat_2004:
  "fromisoformat ''2004-01-10T13:37:04.001+00:00'' =
     Inr \<lparr>year = 2004, month = 1, day = 10, hour = 13, minute = 37, second = 4,
          microsecond = 1000, tzinfo = Some 0\<rparr>"
  by code_simp

lemma millis_2004:
  "py_int (double_mul (total_seconds (since_epoch
      \<lparr>year = 2004, month = 1, day = 10, hour = 13, minute = 37, second = 4,
       microsecond = 1000, tzinfo = Some 0\<rparr> 0)) (double_of_int 1000)) = Inr 1073741824000"
  by (simp add: calendar_eval float_eval)

subsection \<open>The conversion of an aware value\<close>

lemma bit_length_le: "n < 2 ^ k \<Longrightarrow> bit_length n \<le> k"
proof (induction k arbitrary: n)
  case 0
  then show ?case by (simp add: bit_length.simps)
next
  case (Suc k)
  show ?case
  proof (cases "n = 0")
    case True
    then show ?thesis by (simp add: bit_length.simps)
  next
    case False
    from Suc.prems have "n div 2 < 2 ^ k" by simp
    then have "bit_length (n div 2) \<le> k" by (rule Suc.IH)
    with False show ?thesis by (subst bit_length.simps) simp
  qed
qed

lemma bit_length_pos: "0 < n \<Longrightarrow> 0 < bit_length n"
  by (subst bit_length.simps) simp

lemma round_half_even_bounds:
  assumes "0 \<le> n" and "1 \<le> d"
  shows "0 \<le> round_half_even n d \<and> round_half_even n d \<le> n + 1"
proof -
  have "0 \<le> n div d" using assms by (simp add: pos_imp_zdiv_nonneg_iff)
  moreover have "n div d \<le> n div 1" using assms by (intro zdiv_mono2) simp_all
  ultimately show ?thesis
    by (auto simp: round_half_even_def Let_def)
qed

text \<open>A rounding stays finite while the quotient is below \<open>2 ^ 1022\<close>.\<close>

lemma round_double_finite:
  assumes "int (bit_length (nat \<bar>n\<bar>)) - int (bit_length (nat d)) \<le> 1022"
  shows "\<exists>m q. round_double n d = Finite m q"
proof (cases "n = 0")
  case True
  then show ?thesis by (simp add: round_double_def)
next
  case False
  define k where "k = int (bit_length (nat \<bar>n\<bar>)) - int (bit_length (nat d))"
  define E where "E = (if d * 2 ^ nat k \<le> \<bar>n\<bar> * 2 ^ nat (- k) then k else k - 1)"
  define q where "q = max (E - 52) (- 1074)"
  have "E \<le> k" by (simp add: E_def)
  with assms have "q \<le> 970" by (simp add: q_def k_def)
  with False show ?thesis
    unfolding round_double_def Let_def k_def [symmetric] E_def [symmetric] q_def [symmetric]
    by simp
qed


lemma sum_list_take_bounds:
  fixes xs :: "int list"
  assumes "\<forall>x\<in>set xs. 0 \<le> x"
  shows "0 \<le> sum_list (take n xs) \<and> sum_list (take n xs) \<le> sum_list xs"
  using assms
proof (induction xs arbitrary: n)
  case Nil
  then show ?case by simp
next
  case (Cons x xs)
  then have "0 \<le> sum_list xs" by (simp add: sum_list_nonneg)
  with Cons show ?case by (cases n) (auto simp: add_nonneg_nonneg add_mono)
qed

lemma ymd2ord_bounds:
  assumes "check_date_fields y m d"
  shows "1 \<le> ymd2ord y m d \<and> ymd2ord y m d \<le> 3660000"
proof -
  from assms have y: "1 \<le> y" "y \<le> 9999" and m: "1 \<le> m" "m \<le> 12"
    and d: "1 \<le> d" "d \<le> days_in_month y m"
    by (simp_all add: check_date_fields_def)
  have dim: "days_in_month y m \<le> 31"
  proof -
    from m have "m = 1 \<or> m = 2 \<or> m = 3 \<or> m = 4 \<or> m = 5 \<or> m = 6 \<or> m = 7 \<or> m = 8
        \<or> m = 9 \<or> m = 10 \<or> m = 11 \<or> m = 12"
      by arith
    then show ?thesis
      by (auto simp: days_in_month_def DAYS_IN_MONTH_def)
  qed
  have dby: "0 \<le> days_before_year y \<and> days_before_year y \<le> 3652000"
    using y by (simp add: days_before_year_def Let_def)
  have "\<forall>x\<in>set (tl DAYS_IN_MONTH). 0 \<le> x"
    by (simp add: DAYS_IN_MONTH_def)
  from sum_list_take_bounds [OF this, of "nat m - 1"]
  have "0 \<le> sum_list (take (nat m - 1) (tl DAYS_IN_MONTH))
      \<and> sum_list (take (nat m - 1) (tl DAYS_IN_MONTH)) \<le> 365"
    by (simp add: DAYS_IN_MONTH_def)
  then have dbm: "0 \<le> days_before_month y m \<and> days_before_month y m \<le> 366"
    by (simp add: days_before_month_def)
  from dby dbm d dim show ?thesis
    by (simp add: ymd2ord_def)
qed

lemma since_epoch_bound:
  assumes "check_date_fields (year dt) (month dt) (day dt)"
    and "check_time_fields (hour dt) (minute dt) (second dt) (microsecond dt)"
    and "\<bar>off\<bar> < 86400 * 10 ^ 6"
  shows "\<bar>since_epoch dt off\<bar> < 2 ^ 59"
proof -
  from ymd2ord_bounds [OF assms(1)]
  have o: "1 \<le> ymd2ord (year dt) (month dt) (day dt)"
    "ymd2ord (year dt) (month dt) (day dt) \<le> 3660000" by simp_all
  have e: "ymd2ord 1970 1 1 = 719163"
    by (simp add: calendar_eval)
  from assms(2) have t: "0 \<le> hour dt" "hour dt \<le> 23" "0 \<le> minute dt" "minute dt \<le> 59"
    "0 \<le> second dt" "second dt \<le> 59" "0 \<le> microsecond dt" "microsecond dt \<le> 999999"
    by (simp_all add: check_time_fields_def)
  from o t assms(3) show ?thesis
    unfolding since_epoch_def e by simp
qed


lemma fromisoformat_valid:
  assumes "fromisoformat s = Inr dt"
  shows "check_date_fields (year dt) (month dt) (day dt)
     \<and> check_time_fields (hour dt) (minute dt) (second dt) (microsecond dt)
     \<and> (\<forall>off. tzinfo dt = Some off \<longrightarrow> \<bar>off\<bar> < 86400 * 10 ^ 6)"
proof -
  have new: "check_date_fields (year dt) (month dt) (day dt)
     \<and> check_time_fields (hour dt) (minute dt) (second dt) (microsecond dt)
     \<and> tzinfo dt = z"
    if "new_datetime dc tc z = Inr dt" for dc tc z
    using that by (auto simp: new_datetime_def split: prod.splits if_splits)
  have zone: "\<forall>off. z = Some off \<longrightarrow> \<bar>off\<bar> < 86400 * 10 ^ 6"
    if "tzinfo_from_isoformat_results tz = Inr z" for tz z
    using that
    by (auto simp: tzinfo_from_isoformat_results_def Let_def
        split: option.splits if_splits prod.splits)
  from assms obtain dc tc z where n: "new_datetime dc tc z = Inr dt"
    and z: "z = None \<or> (\<exists>tz. tzinfo_from_isoformat_results tz = Inr z)"
    by (auto simp: fromisoformat_def split: option.splits if_splits prod.splits sum.splits;
        blast)
  from z zone have "\<forall>off. z = Some off \<longrightarrow> \<bar>off\<bar> < 86400 * 10 ^ 6"
    by blast
  with new [OF n] show ?thesis by simp
qed


lemma double_of_int_1000: "double_of_int 1000 = Finite 8796093022208000 (- 43)"
  by (simp add: float_eval)

text \<open>
  The quotient of \<^verbatim>\<open>total_seconds\<close> is finite, and so is its product with \<open>1000\<close>: the
  conversion of an aware value raises nothing.
\<close>

lemma total_seconds_finite:
  assumes "\<bar>us\<bar> < 2 ^ 59"
  shows "\<exists>m e. total_seconds us = Finite m e \<and> \<bar>m\<bar> \<le> 2 ^ 140 \<and> - 80 \<le> e \<and> e \<le> 40"
proof (cases "us = 0")
  case True
  then show ?thesis by (simp add: total_seconds_def int_truediv_def round_double_def)
next
  case False
  define a where "a = \<bar>us\<bar>"
  define k where "k = int (bit_length (nat a)) - int (bit_length (nat (10 ^ 6)))"
  define E where "E = (if 10 ^ 6 * 2 ^ nat k \<le> a * 2 ^ nat (- k) then k else k - 1)"
  define q where "q = max (E - 52) (- 1074)"
  define m where "m = round_half_even (a * 2 ^ nat (- q)) (10 ^ 6 * 2 ^ nat q)"
  have a: "0 < a" "a < 2 ^ 59" using False assms by (simp_all add: a_def)
  have "nat a < 2 ^ 59" using a by (simp add: nat_less_iff)
  then have "bit_length (nat a) \<le> 59" by (rule bit_length_le)
  moreover have "0 < bit_length (nat a)" using a by (intro bit_length_pos) simp
  moreover have "bit_length (nat (10 ^ 6)) = 20" by simp
  ultimately have k: "- 19 \<le> k" "k \<le> 39" by (simp_all add: k_def)
  then have E: "- 20 \<le> E" "E \<le> 39" by (simp_all add: E_def)
  then have q: "- 72 \<le> q" "q \<le> - 13" by (simp_all add: q_def)
  have "0 \<le> a * 2 ^ nat (- q)" using a by simp
  moreover have "(1::int) \<le> 10 ^ 6 * 2 ^ nat q" using q by simp
  ultimately have m: "0 \<le> m" "m \<le> a * 2 ^ nat (- q) + 1"
    using round_half_even_bounds unfolding m_def by blast+
  have "(2::int) ^ nat (- q) \<le> 2 ^ 72"
    using q by (intro power_increasing) simp_all
  with a have "a * 2 ^ nat (- q) \<le> 2 ^ 59 * 2 ^ 72"
    by (intro mult_mono) simp_all
  with m have mb: "\<bar>m\<bar> \<le> 2 ^ 140" by simp
  have "round_double us (10 ^ 6) = Finite (sgn us * m) q"
    using False q
    unfolding round_double_def Let_def a_def [symmetric] k_def [symmetric] E_def [symmetric]
      q_def [symmetric] m_def [symmetric]
    by simp
  moreover have "\<bar>sgn us * m\<bar> \<le> 2 ^ 140"
    using mb False by (simp add: abs_mult)
  ultimately show ?thesis
    using q by (simp add: total_seconds_def int_truediv_def)
qed


lemma aware_conversion_returns:
  assumes "\<bar>us\<bar> < 2 ^ 59"
  shows "\<exists>ms. py_int (double_mul (total_seconds us) (double_of_int 1000)) = Inr ms"
proof -
  from total_seconds_finite [OF assms] obtain m e
    where t: "total_seconds us = Finite m e" and m: "\<bar>m\<bar> \<le> 2 ^ 140" and e: "e \<le> 40"
    by blast
  let ?n = "m * 8796093022208000 * 2 ^ nat (e + - 43)"
  from e have "?n = m * 8796093022208000" by simp
  then have "\<bar>?n\<bar> = \<bar>m\<bar> * 8796093022208000" by (simp add: abs_mult)
  also have "\<dots> \<le> 2 ^ 140 * 2 ^ 53"
    using m by (intro mult_mono) simp_all
  also have "\<dots> < 2 ^ 200" by simp
  finally have "nat \<bar>?n\<bar> < 2 ^ 200" by (simp add: nat_less_iff)
  then have "bit_length (nat \<bar>?n\<bar>) \<le> 200" by (rule bit_length_le)
  then have "int (bit_length (nat \<bar>?n\<bar>)) - int (bit_length (nat (2 ^ nat (- (e + - 43))))) \<le> 1022"
    by simp
  from round_double_finite [OF this] obtain m' q
    where "round_double ?n (2 ^ nat (- (e + - 43))) = Finite m' q"
    by blast
  with t show ?thesis by (simp add: double_of_int_1000)
qed

lemma zone_explicit_returns:
  assumes "zone_explicit ts"
  shows "returns (iso_to_milliseconds h ts)"
proof -
  from assms obtain s where s: "ts = JStr s" by (cases ts) (simp_all add: zone_explicit_def)
  show ?thesis
  proof (cases "fromisoformat (str_replace (CHR ''Z'') ''+00:00'' s)")
    case (Inl e)
    with assms s have "\<not> has_surrogate s" by (simp add: zone_explicit_def)
    with iso_to_milliseconds_rejected [OF Inl, of h] s show ?thesis
      by (simp add: returns_def)
  next
    case (Inr dt)
    with assms s obtain off where off: "tzinfo dt = Some off"
      by (auto simp: zone_explicit_def)
    from fromisoformat_valid [OF Inr] off have "\<bar>since_epoch dt off\<bar> < 2 ^ 59"
      by (intro since_epoch_bound) simp_all
    from aware_conversion_returns [OF this] obtain ms
      where "py_int (double_mul (total_seconds (since_epoch dt off)) (double_of_int 1000)) = Inr ms"
      by blast
    with Inr off s show ?thesis
      by (simp add: returns_def snd_iso_to_milliseconds timestamp_def)
  qed
qed

lemma zone_explicit_accepted:
  assumes "field x ''timestamp'' = Some ts" and "zone_explicit ts"
  shows "timestamp_accepted h x"
  using assms by (simp add: timestamp_accepted_def zone_explicit_returns)

subsection \<open>The claims on the normaliser\<close>

text \<open>
  Claim C2, as the code has it. The normaliser returns \<open>1697380225123\<close> for
  \<^verbatim>\<open>2023-10-15T14:30:25.123Z\<close> and for \<^verbatim>\<open>2023-10-15T14:30:25.123+00:00\<close> (the number of
  milliseconds from the epoch to that instant; the docstring's \<open>1697372225123\<close> is the
  instant \<^verbatim>\<open>12:17:05.123\<close> of that day), and for every string the result with the suffix
  \<^verbatim>\<open>Z\<close> is the result with the suffix \<^verbatim>\<open>+00:00\<close>.
\<close>

theorem zulu_suffix_is_utc_offset:
  "snd (iso_to_milliseconds h (JStr ''2023-10-15T14:30:25.123Z'')) = Inr 1697380225123
   \<and> snd (iso_to_milliseconds h (JStr ''2023-10-15T14:30:25.123+00:00'')) = Inr 1697380225123
   \<and> snd (iso_to_milliseconds h (JStr (s @ ''Z'')))
       = snd (iso_to_milliseconds h (JStr (s @ ''+00:00'')))"
proof -
  have "str_replace (CHR ''Z'') ''+00:00'' (s @ ''Z'')
      = str_replace (CHR ''Z'') ''+00:00'' (s @ ''+00:00'')"
    unfolding str_replace_append by (simp add: str_replace_def)
  then have "iso_to_milliseconds_try h (JStr (s @ ''Z''))
      = iso_to_milliseconds_try h (JStr (s @ ''+00:00''))"
    by simp
  then have "snd (iso_to_milliseconds h (JStr (s @ ''Z'')))
      = snd (iso_to_milliseconds h (JStr (s @ ''+00:00'')))"
    unfolding snd_iso_to_milliseconds has_surrogate_suffixes by simp
  then show ?thesis
    by (simp add: iso_2023_Z iso_2023_offset)
qed

theorem zulu_suffix_is_utc_offset_witness:
  "snd (iso_to_milliseconds scenario_host (JStr ''2023-10-15T14:30:25.123Z'')) = Inr 1697380225123
   \<and> snd (iso_to_milliseconds scenario_host (JStr (''1970-01-01T00:00:00'' @ ''Z'')))
       = snd (iso_to_milliseconds scenario_host (JStr (''1970-01-01T00:00:00'' @ ''+00:00'')))"
  using zulu_suffix_is_utc_offset [of scenario_host "''1970-01-01T00:00:00''"] by simp

text \<open>
  The value claim C2 states, \<open>1697372225123\<close>, is not what the normaliser returns for
  \<^verbatim>\<open>2023-10-15T14:30:25.123Z\<close>.
\<close>

theorem docstring_example_counterexample:
  "snd (iso_to_milliseconds scenario_host (JStr ''2023-10-15T14:30:25.123Z'')) \<noteq> Inr 1697372225123"
  by (simp add: iso_2023_Z)

text \<open>
  Claim C3 at the input \<^verbatim>\<open>2004-01-10T13:37:04.001Z\<close>: the instant lies exactly
  \<open>1073741824001\<close> milliseconds after the epoch, and the normaliser returns
  \<open>1073741824000\<close>. The quotient \<open>1073741824001000 / 10 ** 6\<close> is not a binary64 number; the
  product of its rounding with \<open>1000\<close> rounds to the float just below \<open>1073741824001\<close>, and
  \<^verbatim>\<open>int()\<close> cuts the fraction off.
\<close>

theorem float_product_loses_a_millisecond:
  "iso_to_milliseconds h (JStr ''2004-01-10T13:37:04.001Z'') = ([], Inr 1073741824000)
   \<and> map_sum id spec_milliseconds (fromisoformat ''2004-01-10T13:37:04.001+00:00'')
       = Inr (Some 1073741824001)"
proof -
  have "str_replace (CHR ''Z'') ''+00:00'' ''2004-01-10T13:37:04.001Z''
      = ''2004-01-10T13:37:04.001+00:00''"
    by (simp add: str_replace_def)
  then have "iso_to_milliseconds_try h (JStr ''2004-01-10T13:37:04.001Z'') = Inr 1073741824000"
    by (simp add: fromisoformat_2004 timestamp_def millis_2004)
  then have "iso_to_milliseconds h (JStr ''2004-01-10T13:37:04.001Z'') = ([], Inr 1073741824000)"
    by (simp add: iso_to_milliseconds_def ret_def)
  moreover have "spec_milliseconds \<lparr>year = 2004, month = 1, day = 10, hour = 13, minute = 37, second = 4,
          microsecond = 1000, tzinfo = Some 0\<rparr> = Some 1073741824001"
    by (simp add: spec_milliseconds_def calendar_eval)
  ultimately show ?thesis by (simp add: fromisoformat_2004)
qed

theorem float_product_loses_a_millisecond_witness:
  "iso_to_milliseconds scenario_host (JStr ''2004-01-10T13:37:04.001Z'') = ([], Inr 1073741824000)"
  using float_product_loses_a_millisecond [of scenario_host] by simp

text \<open>
  Claim C4 at the string that holds the lone surrogate \<^verbatim>\<open>U+D800\<close>, which a JSON document
  spells \<^verbatim>\<open>"\ud800"\<close>. \<^verbatim>\<open>fromisoformat\<close> rejects it, the handler catches the \<^verbatim>\<open>ValueError\<close>,
  and its \<^verbatim>\<open>print\<close> cannot encode the diagnostic: \<^verbatim>\<open>UnicodeEncodeError\<close> leaves the
  normaliser, which prints nothing and returns no zero. On every other string that
  \<^verbatim>\<open>fromisoformat\<close> rejects, one without a lone surrogate, the normaliser does what the claim
  says: it prints the diagnostic, which quotes the string, and returns zero.
\<close>

theorem diagnostic_print_can_raise:
  "fromisoformat (str_replace (CHR ''Z'') ''+00:00'' lone_surrogate) = Inl ValueError
   \<and> iso_to_milliseconds h (JStr lone_surrogate) = ([], Inl UnicodeEncodeError)
   \<and> (fromisoformat (str_replace (CHR ''Z'') ''+00:00'' s) = Inl e \<longrightarrow> \<not> has_surrogate s \<longrightarrow>
        iso_to_milliseconds h (JStr s) = ([Print (MsgInvalidTimestamp s)], Inr 0))"
proof -
  have r: "fromisoformat (str_replace (CHR ''Z'') ''+00:00'' lone_surrogate) = Inl ValueError"
    by (simp add: lone_surrogate_def str_replace_def fromisoformat_def sanitize_isoformat_str_def
        utf8_width_def)
  have "has_surrogate lone_surrogate"
    by (simp add: lone_surrogate_def)
  with iso_to_milliseconds_rejected [OF r, of h]
  have "iso_to_milliseconds h (JStr lone_surrogate) = ([], Inl UnicodeEncodeError)"
    by simp
  with r show ?thesis
    by (simp add: iso_to_milliseconds_rejected)
qed

theorem diagnostic_print_can_raise_witness:
  "fromisoformat (str_replace (CHR ''Z'') ''+00:00'' ''yesterday at noon'') = Inl ValueError
   \<and> \<not> has_surrogate ''yesterday at noon''
   \<and> iso_to_milliseconds scenario_host (JStr ''yesterday at noon'')
       = ([Print (MsgInvalidTimestamp ''yesterday at noon'')], Inr 0)"
proof -
  have a: "fromisoformat (str_replace (CHR ''Z'') ''+00:00'' ''yesterday at noon'') = Inl ValueError"
    by code_simp
  have b: "\<not> has_surrogate ''yesterday at noon''"
    by simp
  from diagnostic_print_can_raise [of scenario_host "''yesterday at noon''" ValueError] a b
  show ?thesis by simp
qed

section \<open>The mappers\<close>

text \<open>
  Claim C5. A document without the key \<^verbatim>\<open>telemetry\<close> makes the Format-A mapper return the
  empty list, and a document without the key \<^verbatim>\<open>sensors\<close> does so for the Format-B mapper;
  neither fails nor prints. The empty document is such a document for both.
\<close>

theorem absent_key_yields_empty_list:
  "(\<not> dict_contains data ''telemetry'' \<longrightarrow> transform_format1_to_unified h data = ([], Inr []))
   \<and> (\<not> dict_contains data ''sensors'' \<longrightarrow> transform_format2_to_unified data = Inr [])
   \<and> transform_format1_to_unified h [] = ([], Inr [])
   \<and> transform_format2_to_unified [] = Inr []"
  by (simp add: transform_format1_to_unified_def transform_format2_to_unified_def ret_def
      dict_contains_def)

theorem absent_key_yields_empty_list_witness:
  "\<not> dict_contains scenario2 ''telemetry''
   \<and> transform_format1_to_unified scenario_host scenario2 = ([], Inr [])
   \<and> \<not> dict_contains scenario1 ''sensors''
   \<and> transform_format2_to_unified scenario1 = Inr []"
proof -
  have a: "\<not> dict_contains scenario2 ''telemetry''"
    by (simp add: dict_contains_def scenario2_def)
  have b: "\<not> dict_contains scenario1 ''sensors''"
    by (simp add: dict_contains_def scenario1_def)
  from a b absent_key_yields_empty_list [of scenario2 scenario_host]
    absent_key_yields_empty_list [of scenario1 scenario_host]
  show ?thesis by simp
qed

subsection \<open>The records of a mapper\<close>

lemma list_all2_ex: "(\<forall>x\<in>set xs. \<exists>y. P x y) \<Longrightarrow> \<exists>ys. list_all2 P xs ys"
proof (induction xs)
  case Nil
  then show ?case by simp
next
  case (Cons x xs)
  then obtain y ys where "P x y" "list_all2 P xs ys" by auto
  then have "list_all2 P (x # xs) (y # ys)" by simp
  then show ?case by blast
qed

lemma list_all2_in_set2:
  assumes "list_all2 P xs ys" and "y \<in> set ys"
  shows "\<exists>x\<in>set xs. P x y"
proof -
  from assms(2) obtain i where i: "i < length ys" "ys ! i = y"
    by (auto simp: in_set_conv_nth)
  with assms(1) have "P (xs ! i) y" "i < length xs"
    by (auto simp: list_all2_conv_all_nth)
  then show ?thesis using nth_mem by blast
qed

lemma has_fields_format1:
  "has_fields format1_fields x \<longleftrightarrow>
     (\<exists>d v1 v2 v3 v4 v5. x = JObj d \<and> map_of d ''device_id'' = Some v1
        \<and> map_of d ''timestamp'' = Some v2 \<and> map_of d ''temperature'' = Some v3
        \<and> map_of d ''humidity'' = Some v4 \<and> map_of d ''pressure'' = Some v5)"
  by (cases x) (auto simp: format1_fields_def dict_contains_def)

lemma has_fields_format2:
  "has_fields format2_fields x \<longleftrightarrow>
     (\<exists>d v1 v2 v3 v4 v5. x = JObj d \<and> map_of d ''id'' = Some v1
        \<and> map_of d ''ts'' = Some v2 \<and> map_of d ''temp'' = Some v3
        \<and> map_of d ''hum'' = Some v4 \<and> map_of d ''press'' = Some v5)"
  by (cases x) (auto simp: format2_fields_def dict_contains_def)

lemma returns_iff: "returns m \<longleftrightarrow> (\<exists>v. snd m = Inr v)"
  by (simp add: returns_def split: sum.splits)

lemma unified_entry1_returns:
  assumes "has_fields format1_fields x" and "timestamp_accepted h x"
  shows "\<exists>r. snd (unified_entry1 h x) = Inr r"
proof -
  from assms(1) obtain d v1 v2 v3 v4 v5 where x: "x = JObj d"
    and f: "map_of d ''device_id'' = Some v1" "map_of d ''timestamp'' = Some v2"
      "map_of d ''temperature'' = Some v3" "map_of d ''humidity'' = Some v4"
      "map_of d ''pressure'' = Some v5"
    unfolding has_fields_format1 by blast
  from assms(2) x f obtain ms where "snd (iso_to_milliseconds h v2) = Inr ms"
    by (auto simp: timestamp_accepted_def returns_iff)
  with x f show ?thesis unfolding unified_entry1_Inr by blast
qed

lemma unified_entry2_returns:
  assumes "has_fields format2_fields x"
  shows "\<exists>r. unified_entry2 x = Inr r"
  using assms unfolding has_fields_format2 unified_entry2_Inr by blast

lemma transform_format1_list:
  assumes "map_of data ''telemetry'' = Some (JList xs)"
  shows "snd (transform_format1_to_unified h data) = snd (format1_loop h xs [])"
  using assms
  by (simp add: transform_format1_to_unified_def dict_contains_def dict_getitem_def
      snd_io_bind)

lemma transform_format2_list:
  assumes "map_of data ''sensors'' = Some (JList xs)"
  shows "transform_format2_to_unified data = format2_loop xs []"
  using assms
  by (simp add: transform_format2_to_unified_def dict_contains_def dict_getitem_def)

lemma format1_loop_fails:
  assumes "x \<in> set xs" and "snd (unified_entry1 h x) = Inl e"
  shows "\<exists>e'. snd (format1_loop h xs acc) = Inl e'"
proof (cases "snd (format1_loop h xs acc)")
  case (Inr out)
  then obtain zs where "list_all2 (\<lambda>x z. snd (unified_entry1 h x) = Inr z) xs zs"
    unfolding format1_loop_Inr by blast
  with assms(1) obtain z where "snd (unified_entry1 h x) = Inr z"
    by (auto simp: list_all2_conv_all_nth in_set_conv_nth)
  with assms(2) show ?thesis by simp
qed blast

lemma format2_loop_fails:
  assumes "x \<in> set xs" and "unified_entry2 x = Inl e"
  shows "\<exists>e'. format2_loop xs acc = Inl e'"
proof (cases "format2_loop xs acc")
  case (Inr out)
  then obtain zs where "list_all2 (\<lambda>x z. unified_entry2 x = Inr z) xs zs"
    unfolding format2_loop_Inr by blast
  with assms(1) obtain z where "unified_entry2 x = Inr z"
    by (auto simp: list_all2_conv_all_nth in_set_conv_nth)
  with assms(2) show ?thesis by simp
qed blast

lemma unified_entry1_lacking:
  assumes "is_object x" and "\<not> has_fields format1_fields x"
  shows "\<exists>e. snd (unified_entry1 h x) = Inl e"
proof (cases "snd (unified_entry1 h x)")
  case (Inr r)
  then have "has_fields format1_fields x"
    unfolding unified_entry1_Inr has_fields_format1 by blast
  with assms(2) show ?thesis by simp
qed blast

lemma unified_entry2_lacking:
  assumes "is_object x" and "\<not> has_fields format2_fields x"
  shows "\<exists>e. unified_entry2 x = Inl e"
proof (cases "unified_entry2 x")
  case (Inr r)
  then have "has_fields format2_fields x"
    unfolding unified_entry2_Inr has_fields_format2 by blast
  with assms(2) show ?thesis by simp
qed blast

lemma transform_format1_entries:
  assumes "snd (transform_format1_to_unified h data) = Inr out"
  shows "list_all2 (\<lambda>x r. snd (unified_entry1 h x) = Inr r) (entries data ''telemetry'') out"
proof (cases "map_of data ''telemetry''")
  case None
  with assms show ?thesis
    by (simp add: transform_format1_to_unified_def dict_contains_def ret_def entries_def)
next
  case (Some v)
  show ?thesis
  proof (cases "py_iter v")
    case (Inl e)
    with Some assms show ?thesis
      by (simp add: transform_format1_to_unified_def dict_contains_def dict_getitem_def
          snd_io_bind)
  next
    case (Inr xs)
    with Some assms show ?thesis
      by (simp add: transform_format1_to_unified_def dict_contains_def dict_getitem_def
          snd_io_bind entries_def format1_loop_Inr)
  qed
qed

lemma transform_format2_entries:
  assumes "transform_format2_to_unified data = Inr out"
  shows "list_all2 (\<lambda>x r. unified_entry2 x = Inr r) (entries data ''sensors'') out"
proof (cases "map_of data ''sensors''")
  case None
  with assms show ?thesis
    by (simp add: transform_format2_to_unified_def dict_contains_def entries_def)
next
  case (Some v)
  show ?thesis
  proof (cases "py_iter v")
    case (Inl e)
    with Some assms show ?thesis
      by (simp add: transform_format2_to_unified_def dict_contains_def dict_getitem_def)
  next
    case (Inr xs)
    with Some assms show ?thesis
      by (simp add: transform_format2_to_unified_def dict_contains_def dict_getitem_def
          entries_def format2_loop_Inr)
  qed
qed

lemma unified_entry1_shape:
  assumes "snd (unified_entry1 h x) = Inr r"
  shows "has_fields unified_fields r \<and> typed is_integer (field r ''timestamp'')
     \<and> field r ''device_id'' = field x ''device_id''
     \<and> field r ''temperature'' = field x ''temperature''
     \<and> field r ''humidity'' = field x ''humidity''
     \<and> field r ''pressure'' = field x ''pressure''
     \<and> (format1_typed x \<longrightarrow> unified_typed r)"
  using assms unfolding unified_entry1_Inr
  by (auto simp: unified_fields_def dict_contains_def format1_typed_def unified_typed_def)

lemma unified_entry2_shape:
  assumes "unified_entry2 y = Inr r"
  shows "has_fields unified_fields r
     \<and> field r ''device_id'' = field y ''id''
     \<and> field r ''timestamp'' = field y ''ts''
     \<and> field r ''temperature'' = field y ''temp''
     \<and> field r ''humidity'' = field y ''hum''
     \<and> field r ''pressure'' = field y ''press''
     \<and> (format2_typed y \<longrightarrow> unified_typed r)"
  using assms unfolding unified_entry2_Inr
  by (auto simp: unified_fields_def dict_contains_def format2_typed_def unified_typed_def)

subsection \<open>Loading a file\<close>

lemma load_json_file_Inr: "read_json h f = Inr d \<Longrightarrow> load_json_file h f = ([], Inr d)"
  by (simp add: load_json_file_def ret_def)

lemma load_json_file_missing:
  "read_json h f = Inl FileNotFoundError \<Longrightarrow>
     load_json_file h f = ([Print (MsgFileNotFound f)], Inr [])"
  by (simp add: load_json_file_def ret_def say_def io_then_def)

lemma load_json_file_invalid:
  "read_json h f = Inl JSONDecodeError \<Longrightarrow>
     load_json_file h f = ([Print (MsgInvalidJSON f)], Inr [])"
  by (simp add: load_json_file_def ret_def say_def io_then_def)

subsection \<open>The scenario, evaluated\<close>

lemmas mapper_eval =
  transform_format1_to_unified_def transform_format2_to_unified_def unified_entry1_def
  unified_entry2_def dict_contains_def dict_getitem_def lift_def ret_def raise_def

lemma scenario_host_reads:
  "read_json scenario_host ''data-1.json'' = Inr scenario1"
  "read_json scenario_host ''data-2.json'' = Inr scenario2"
  "write_json scenario_host f = None"
  by (simp_all add: scenario_host_def host_of_def)

lemma scenario_host_loads:
  "load_json_file scenario_host ''data-1.json'' = ([], Inr scenario1)"
  "load_json_file scenario_host ''data-2.json'' = ([], Inr scenario2)"
  by (simp_all add: load_json_file_Inr scenario_host_reads)

lemma empty_object_host_reads:
  "read_json empty_object_host ''data-1.json'' = Inr []"
  "read_json empty_object_host ''data-2.json'' = Inr scenario2"
  by (simp_all add: empty_object_host_def host_of_def)

lemma empty_object_host_loads:
  "load_json_file empty_object_host ''data-1.json'' = ([], Inr [])"
  "load_json_file empty_object_host ''data-2.json'' = ([], Inr scenario2)"
  by (simp_all add: load_json_file_Inr empty_object_host_reads)

lemma scenario_mapped1:
  "transform_format1_to_unified h scenario1 = ([], Inr [scenario_unified1])"
  by (simp add: mapper_eval scenario1_def scenario_record1_def scenario_unified1_def iso_2023_Z)

lemma scenario_mapped2:
  "transform_format2_to_unified scenario2 = Inr [scenario_unified2]"
  by (simp add: mapper_eval scenario2_def scenario_record2_def scenario_unified2_def)

subsection \<open>One output record for each input record\<close>

text \<open>
  Claim C7, as the code has it. When the list under the key holds \<open>N\<close> records that have
  every required field, and (for Format-A) the normaliser returns on the timestamp of each,
  the mapper returns a list of length \<open>N\<close> whose record \<open>i\<close> is the one the loop body builds
  from input record \<open>i\<close>. For Format-B the presence of the fields is enough. The normaliser
  returns on every string that \<^verbatim>\<open>fromisoformat\<close> reads with \<^verbatim>\<open>Z\<close> or a UTC offset, and on
  every string that it rejects and that holds no lone surrogate.
\<close>

theorem records_map_one_to_one:
  "(map_of data ''telemetry'' = Some (JList xs) \<longrightarrow>
      (\<forall>x\<in>set xs. has_fields format1_fields x \<and> timestamp_accepted h x) \<longrightarrow>
      (\<exists>out. snd (transform_format1_to_unified h data) = Inr out \<and> length out = length xs
         \<and> (\<forall>i<length xs. snd (unified_entry1 h (xs ! i)) = Inr (out ! i))))
   \<and> (map_of data ''sensors'' = Some (JList ys) \<longrightarrow>
      (\<forall>y\<in>set ys. has_fields format2_fields y) \<longrightarrow>
      (\<exists>out. transform_format2_to_unified data = Inr out \<and> length out = length ys
         \<and> (\<forall>i<length ys. unified_entry2 (ys ! i) = Inr (out ! i))))
   \<and> (field x ''timestamp'' = Some ts \<longrightarrow> zone_explicit ts \<longrightarrow> timestamp_accepted h x)"
proof (intro conjI impI)
  assume "field x ''timestamp'' = Some ts" and "zone_explicit ts"
  then show "timestamp_accepted h x" by (rule zone_explicit_accepted)
next
  assume k: "map_of data ''telemetry'' = Some (JList xs)"
    and ok: "\<forall>x\<in>set xs. has_fields format1_fields x \<and> timestamp_accepted h x"
  from ok have "\<forall>x\<in>set xs. \<exists>r. snd (unified_entry1 h x) = Inr r"
    by (blast intro: unified_entry1_returns)
  then obtain out where out: "list_all2 (\<lambda>x r. snd (unified_entry1 h x) = Inr r) xs out"
    using list_all2_ex [of xs "\<lambda>x r. snd (unified_entry1 h x) = Inr r"] by blast
  then have "snd (transform_format1_to_unified h data) = Inr out"
    by (simp add: transform_format1_list [OF k] format1_loop_Inr)
  with out show "\<exists>out. snd (transform_format1_to_unified h data) = Inr out
      \<and> length out = length xs
      \<and> (\<forall>i<length xs. snd (unified_entry1 h (xs ! i)) = Inr (out ! i))"
    by (auto simp: list_all2_conv_all_nth)
next
  assume k: "map_of data ''sensors'' = Some (JList ys)"
    and ok: "\<forall>y\<in>set ys. has_fields format2_fields y"
  from ok have "\<forall>y\<in>set ys. \<exists>r. unified_entry2 y = Inr r"
    by (blast intro: unified_entry2_returns)
  then obtain out where out: "list_all2 (\<lambda>y r. unified_entry2 y = Inr r) ys out"
    using list_all2_ex [of ys "\<lambda>y r. unified_entry2 y = Inr r"] by blast
  then have "transform_format2_to_unified data = Inr out"
    by (simp add: transform_format2_list [OF k] format2_loop_Inr)
  with out show "\<exists>out. transform_format2_to_unified data = Inr out
      \<and> length out = length ys
      \<and> (\<forall>i<length ys. unified_entry2 (ys ! i) = Inr (out ! i))"
    by (auto simp: list_all2_conv_all_nth)
qed

theorem records_map_one_to_one_witness:
  "(\<exists>out. snd (transform_format1_to_unified scenario_host scenario1) = Inr out
       \<and> length out = 1
       \<and> snd (unified_entry1 scenario_host scenario_record1) = Inr (out ! 0))
   \<and> (\<exists>out. transform_format2_to_unified scenario2 = Inr out \<and> length out = 1
       \<and> unified_entry2 scenario_record2 = Inr (out ! 0))
   \<and> zone_explicit (JStr ''2023-10-15T14:30:25.123Z'')
   \<and> timestamp_accepted scenario_host scenario_record1"
proof -
  have a: "map_of scenario1 ''telemetry'' = Some (JList [scenario_record1])"
    by (simp add: scenario1_def)
  have b: "map_of scenario2 ''sensors'' = Some (JList [scenario_record2])"
    by (simp add: scenario2_def)
  have "str_replace (CHR ''Z'') ''+00:00'' ''2023-10-15T14:30:25.123Z''
      = ''2023-10-15T14:30:25.123+00:00''"
    by (simp add: str_replace_def)
  then have z: "zone_explicit (JStr ''2023-10-15T14:30:25.123Z'')"
    by (simp add: zone_explicit_def fromisoformat_2023)
  have f: "field scenario_record1 ''timestamp'' = Some (JStr ''2023-10-15T14:30:25.123Z'')"
    by (simp add: scenario_record1_def)
  from records_map_one_to_one
    [of "[]" "[]" scenario_host "[]" scenario_record1 "JStr ''2023-10-15T14:30:25.123Z''"] f z
  have acc: "timestamp_accepted scenario_host scenario_record1"
    by simp
  have "has_fields format1_fields scenario_record1"
    by (simp add: scenario_record1_def format1_fields_def dict_contains_def)
  with acc have c: "\<forall>x\<in>set [scenario_record1].
      has_fields format1_fields x \<and> timestamp_accepted scenario_host x"
    by simp
  have d: "\<forall>y\<in>set [scenario_record2]. has_fields format2_fields y"
    by (simp add: scenario_record2_def format2_fields_def dict_contains_def)
  from records_map_one_to_one [of scenario1 "[scenario_record1]" scenario_host "[]"] a c
  have "\<exists>out. snd (transform_format1_to_unified scenario_host scenario1) = Inr out
       \<and> length out = 1
       \<and> snd (unified_entry1 scenario_host scenario_record1) = Inr (out ! 0)"
    by simp
  moreover
  from records_map_one_to_one [of scenario2 "[]" scenario_host "[scenario_record2]"] b d
  have "\<exists>out. transform_format2_to_unified scenario2 = Inr out \<and> length out = 1
       \<and> unified_entry2 scenario_record2 = Inr (out ! 0)"
    by simp
  ultimately show ?thesis using z acc by simp
qed

text \<open>
  Claim C7 as stated fails on a Format-A record that has all five fields and a numeric
  timestamp: the mapper raises \<^verbatim>\<open>AttributeError\<close> and returns no list.
\<close>

theorem numeric_timestamp_counterexample:
  "has_fields format1_fields numeric_timestamp_record
   \<and> snd (transform_format1_to_unified scenario_host
            [(''telemetry'', JList [numeric_timestamp_record])]) = Inl AttributeError"
  by (simp add: mapper_eval numeric_timestamp_record_def format1_fields_def
      iso_to_milliseconds_def)

subsection \<open>The fields of a unified record\<close>

text \<open>
  Claim C8, as the code has it. Every record a mapper returns holds the five unified fields.
  The timestamp of a Format-A output is an integer. Every other value is the value the input
  record holds under the corresponding field, copied as it is: the output has the types of
  the data model whenever the input record has them.
\<close>

theorem unified_records_are_complete:
  "(snd (transform_format1_to_unified h data) = Inr out \<longrightarrow> r \<in> set out \<longrightarrow>
      has_fields unified_fields r \<and> typed is_integer (field r ''timestamp'')
      \<and> (\<exists>x\<in>set (entries data ''telemetry'').
            field r ''device_id'' = field x ''device_id''
          \<and> field r ''temperature'' = field x ''temperature''
          \<and> field r ''humidity'' = field x ''humidity''
          \<and> field r ''pressure'' = field x ''pressure''
          \<and> (format1_typed x \<longrightarrow> unified_typed r)))
   \<and> (transform_format2_to_unified data = Inr out \<longrightarrow> r \<in> set out \<longrightarrow>
      has_fields unified_fields r
      \<and> (\<exists>y\<in>set (entries data ''sensors'').
            field r ''device_id'' = field y ''id''
          \<and> field r ''timestamp'' = field y ''ts''
          \<and> field r ''temperature'' = field y ''temp''
          \<and> field r ''humidity'' = field y ''hum''
          \<and> field r ''pressure'' = field y ''press''
          \<and> (format2_typed y \<longrightarrow> unified_typed r)))"
proof (intro conjI impI)
  assume a: "snd (transform_format1_to_unified h data) = Inr out" and r: "r \<in> set out"
  have "\<exists>x\<in>set (entries data ''telemetry''). snd (unified_entry1 h x) = Inr r"
    by (rule list_all2_in_set2 [OF transform_format1_entries [OF a] r])
  then obtain x where x: "x \<in> set (entries data ''telemetry'')"
    and e: "snd (unified_entry1 h x) = Inr r"
    by (rule bexE)
  note s = unified_entry1_shape [OF e]
  from s show "has_fields unified_fields r" by (rule conjunct1)
  from s show "typed is_integer (field r ''timestamp'')" by simp
  from s have "field r ''device_id'' = field x ''device_id''
          \<and> field r ''temperature'' = field x ''temperature''
          \<and> field r ''humidity'' = field x ''humidity''
          \<and> field r ''pressure'' = field x ''pressure''
          \<and> (format1_typed x \<longrightarrow> unified_typed r)"
    by simp
  with x show "\<exists>x\<in>set (entries data ''telemetry'').
            field r ''device_id'' = field x ''device_id''
          \<and> field r ''temperature'' = field x ''temperature''
          \<and> field r ''humidity'' = field x ''humidity''
          \<and> field r ''pressure'' = field x ''pressure''
          \<and> (format1_typed x \<longrightarrow> unified_typed r)"
    by (rule bexI [rotated])
next
  assume a: "transform_format2_to_unified data = Inr out" and r: "r \<in> set out"
  have "\<exists>y\<in>set (entries data ''sensors''). unified_entry2 y = Inr r"
    by (rule list_all2_in_set2 [OF transform_format2_entries [OF a] r])
  then obtain y where y: "y \<in> set (entries data ''sensors'')"
    and e: "unified_entry2 y = Inr r"
    by (rule bexE)
  note s = unified_entry2_shape [OF e]
  from s show "has_fields unified_fields r" by (rule conjunct1)
  from s have "field r ''device_id'' = field y ''id''
          \<and> field r ''timestamp'' = field y ''ts''
          \<and> field r ''temperature'' = field y ''temp''
          \<and> field r ''humidity'' = field y ''hum''
          \<and> field r ''pressure'' = field y ''press''
          \<and> (format2_typed y \<longrightarrow> unified_typed r)"
    by simp
  with y show "\<exists>y\<in>set (entries data ''sensors'').
            field r ''device_id'' = field y ''id''
          \<and> field r ''timestamp'' = field y ''ts''
          \<and> field r ''temperature'' = field y ''temp''
          \<and> field r ''humidity'' = field y ''hum''
          \<and> field r ''pressure'' = field y ''press''
          \<and> (format2_typed y \<longrightarrow> unified_typed r)"
    by (rule bexI [rotated])
qed

theorem unified_records_are_complete_witness:
  "has_fields unified_fields scenario_unified1
   \<and> typed is_integer (field scenario_unified1 ''timestamp'')
   \<and> unified_typed scenario_unified1
   \<and> has_fields unified_fields scenario_unified2
   \<and> unified_typed scenario_unified2"
proof -
  have a: "snd (transform_format1_to_unified scenario_host scenario1) = Inr [scenario_unified1]"
    by (simp add: scenario_mapped1)
  have e1: "entries scenario1 ''telemetry'' = [scenario_record1]"
    and e2: "entries scenario2 ''sensors'' = [scenario_record2]"
    by (simp_all add: entries_def scenario1_def scenario2_def)
  have t1: "format1_typed scenario_record1"
    by (simp add: format1_typed_def scenario_record1_def)
  have t2: "format2_typed scenario_record2"
    by (simp add: format2_typed_def scenario_record2_def)
  from unified_records_are_complete
    [of scenario_host scenario1 "[scenario_unified1]" scenario_unified1] a e1 t1
  have "has_fields unified_fields scenario_unified1
   \<and> typed is_integer (field scenario_unified1 ''timestamp'')
   \<and> unified_typed scenario_unified1"
    by simp
  moreover
  from unified_records_are_complete
    [of scenario_host scenario2 "[scenario_unified2]" scenario_unified2] scenario_mapped2 e2 t2
  have "has_fields unified_fields scenario_unified2 \<and> unified_typed scenario_unified2"
    by simp
  ultimately show ?thesis by simp
qed

text \<open>
  Claim C8 as stated fails on a Format-B record whose values are not of the declared types:
  the mapper returns a record whose \<^verbatim>\<open>device_id\<close> is a number and whose \<^verbatim>\<open>timestamp\<close> is a
  string.
\<close>

theorem untyped_record_counterexample:
  "transform_format2_to_unified [(''sensors'', JList [untyped_record2])] = Inr [untyped_unified]
   \<and> \<not> unified_typed untyped_unified"
  by (simp add: mapper_eval untyped_record2_def untyped_unified_def unified_typed_def)

section \<open>The run\<close>

lemma main_abort:
  assumes "snd (load_json_file h ''data-1.json'') = Inr data1"
    and "snd (load_json_file h ''data-2.json'') = Inr data2"
    and "data1 = [] \<or> data2 = []"
  shows "main h =
     ([Print MsgBanner, Print MsgRule, Print MsgLoading]
        @ fst (load_json_file h ''data-1.json'') @ fst (load_json_file h ''data-2.json'')
        @ [Print MsgCouldNotLoad], Inr ())"
proof -
  obtain o1 o2 where l: "load_json_file h ''data-1.json'' = (o1, Inr data1)"
    "load_json_file h ''data-2.json'' = (o2, Inr data2)"
    using assms(1,2) by (metis prod.collapse)
  with assms(3) show ?thesis
    by (auto simp: main_def io_then_def say_def)
qed

lemma main_proceed:
  assumes "snd (load_json_file h ''data-1.json'') = Inr data1"
    and "snd (load_json_file h ''data-2.json'') = Inr data2"
    and "data1 \<noteq> []" and "data2 \<noteq> []"
  shows "\<exists>rest. main h =
     ([Print MsgBanner, Print MsgRule, Print MsgLoading]
        @ fst (load_json_file h ''data-1.json'') @ fst (load_json_file h ''data-2.json'')
        @ Print MsgLoaded # Print MsgTransforming # fst rest, snd rest)
     \<and> (\<forall>unified1 unified2.
          snd (transform_format1_to_unified h data1) = Inr unified1 \<longrightarrow>
          transform_format2_to_unified data2 = Inr unified2 \<longrightarrow>
          written (fst rest) =
            written (fst (save_unified_data h (unified1 @ unified2) ''output-unified.json'')))"
proof -
  obtain o1 o2 where l: "load_json_file h ''data-1.json'' = (o1, Inr data1)"
    "load_json_file h ''data-2.json'' = (o2, Inr data2)"
    using assms(1,2) by (metis prod.collapse)
  define rest where "rest =
    io_bind (transform_format1_to_unified h data1) (\<lambda>unified1.
     io_bind (lift (transform_format2_to_unified data2)) (\<lambda>unified2.
     let all_unified_data = unified1 @ unified2
     in
     io_then (say (MsgTotal (length all_unified_data)))
    (io_then (say MsgSaving)
    (io_then (save_unified_data h all_unified_data ''output-unified.json'')
    (io_then (say MsgTesting)
    (io_bind (run_tests h) (\<lambda>test_passed.
     if test_passed then say MsgSuccess else say MsgSomeFailed)))))))"
  have "main h =
     ([Print MsgBanner, Print MsgRule, Print MsgLoading] @ o1 @ o2
        @ Print MsgLoaded # Print MsgTransforming # fst rest, snd rest)"
    using l assms(3,4) by (simp add: main_def io_then_def say_def rest_def)
  moreover have "written (fst rest) =
      written (fst (save_unified_data h (unified1 @ unified2) ''output-unified.json''))"
    if "snd (transform_format1_to_unified h data1) = Inr unified1"
      and "transform_format2_to_unified data2 = Inr unified2" for unified1 unified2
    using that
    by (simp add: rest_def fst_io_bind io_then_def say_def Let_def split: sum.splits)
  ultimately show ?thesis using l by auto
qed

lemma written_save:
  "write_json h f = None \<Longrightarrow>
     written (fst (save_unified_data h xs f)) = [(f, JObj [(''unified_telemetry'', JList xs)])]"
  by (simp add: save_unified_data_def)

lemma main_written:
  assumes "snd (load_json_file h ''data-1.json'') = Inr data1"
    and "snd (load_json_file h ''data-2.json'') = Inr data2"
    and "data1 \<noteq> []" and "data2 \<noteq> []"
    and "snd (transform_format1_to_unified h data1) = Inr unified1"
    and "transform_format2_to_unified data2 = Inr unified2"
    and "write_json h ''output-unified.json'' = None"
  shows "written (fst (main h)) =
     [(''output-unified.json'', JObj [(''unified_telemetry'', JList (unified1 @ unified2))])]"
proof -
  from main_proceed [OF assms(1-4)] obtain rest where
    m: "main h =
     ([Print MsgBanner, Print MsgRule, Print MsgLoading]
        @ fst (load_json_file h ''data-1.json'') @ fst (load_json_file h ''data-2.json'')
        @ Print MsgLoaded # Print MsgTransforming # fst rest, snd rest)"
    and w: "written (fst rest) =
       written (fst (save_unified_data h (unified1 @ unified2) ''output-unified.json''))"
    using assms(5,6) by blast
  show ?thesis by (simp add: m w written_save [OF assms(7)])
qed

lemma main_proceeds_differently:
  assumes "snd (load_json_file h ''data-1.json'') = Inr data1"
    and "snd (load_json_file h ''data-2.json'') = Inr data2"
    and "data1 \<noteq> []" and "data2 \<noteq> []"
  shows "main h \<noteq>
     ([Print MsgBanner, Print MsgRule, Print MsgLoading]
        @ fst (load_json_file h ''data-1.json'') @ fst (load_json_file h ''data-2.json'')
        @ [Print MsgCouldNotLoad], Inr ())"
proof -
  from main_proceed [OF assms] obtain rest where "main h =
     ([Print MsgBanner, Print MsgRule, Print MsgLoading]
        @ fst (load_json_file h ''data-1.json'') @ fst (load_json_file h ''data-2.json'')
        @ Print MsgLoaded # Print MsgTransforming # fst rest, snd rest)"
    by blast
  then show ?thesis by simp
qed

lemma load_failure_is_empty:
  assumes "read_json h f = Inr [] \<or> read_json h f = Inl FileNotFoundError
     \<or> read_json h f = Inl JSONDecodeError"
  shows "snd (load_json_file h f) = Inr []"
  using assms
  by (auto simp: load_json_file_Inr load_json_file_missing load_json_file_invalid)

subsection \<open>Missing fields\<close>

lemma main_mapper_fault:
  assumes "snd (load_json_file h ''data-1.json'') = Inr data1"
    and "snd (load_json_file h ''data-2.json'') = Inr data2"
    and "data1 \<noteq> []" and "data2 \<noteq> []"
    and "snd (transform_format1_to_unified h data1) = Inl e
      \<or> (returns (transform_format1_to_unified h data1)
          \<and> transform_format2_to_unified data2 = Inl e)"
  shows "snd (main h) = Inl e \<and> written (fst (main h)) = []"
proof -
  obtain o1 o2 where l: "load_json_file h ''data-1.json'' = (o1, Inr data1)"
    "load_json_file h ''data-2.json'' = (o2, Inr data2)"
    using assms(1,2) by (metis prod.collapse)
  obtain o3 r3 where t: "transform_format1_to_unified h data1 = (o3, r3)"
    by (cases "transform_format1_to_unified h data1")
  have w: "written o1 = []" "written o2 = []" "written o3 = []"
    using written_load_json_file [of h "''data-1.json''"]
      written_load_json_file [of h "''data-2.json''"]
      written_transform_format1 [of h data1] l t by simp_all
  from assms(5) show ?thesis
  proof
    assume "snd (transform_format1_to_unified h data1) = Inl e"
    with t have "r3 = Inl e" by simp
    with l t w assms(3,4) show ?thesis
      by (simp add: main_def io_then_def say_def)
  next
    assume a: "returns (transform_format1_to_unified h data1)
          \<and> transform_format2_to_unified data2 = Inl e"
    with t obtain u1 where "r3 = Inr u1" by (auto simp: returns_iff)
    with l t w a assms(3,4) show ?thesis
      by (simp add: main_def io_then_def say_def lift_def)
  qed
qed

lemma missing_field_fault:
  "(map_of data ''telemetry'' = Some (JList xs) \<longrightarrow>
      (\<exists>x\<in>set xs. is_object x \<and> \<not> has_fields format1_fields x) \<longrightarrow>
      (\<exists>e. snd (transform_format1_to_unified h data) = Inl e)
      \<and> ((\<forall>x\<in>set xs. is_object x \<and> timestamp_accepted h x) \<longrightarrow>
          (\<exists>k\<in>set format1_fields.
             snd (transform_format1_to_unified h data) = Inl (KeyError k))))
   \<and> (map_of data ''sensors'' = Some (JList ys) \<longrightarrow>
      (\<exists>y\<in>set ys. is_object y \<and> \<not> has_fields format2_fields y) \<longrightarrow>
      (\<exists>e. transform_format2_to_unified data = Inl e)
      \<and> ((\<forall>y\<in>set ys. is_object y) \<longrightarrow>
          (\<exists>k\<in>set format2_fields. transform_format2_to_unified data = Inl (KeyError k))))"
proof (intro conjI impI)
  assume k: "map_of data ''telemetry'' = Some (JList xs)"
    and bad: "\<exists>x\<in>set xs. is_object x \<and> \<not> has_fields format1_fields x"
  from bad obtain x e0 where "x \<in> set xs" "snd (unified_entry1 h x) = Inl e0"
    using unified_entry1_lacking by blast
  then show "\<exists>e. snd (transform_format1_to_unified h data) = Inl e"
    unfolding transform_format1_list [OF k] by (rule format1_loop_fails)
  then obtain e where e: "snd (format1_loop h xs []) = Inl e"
    unfolding transform_format1_list [OF k] by blast
  assume ok: "\<forall>x\<in>set xs. is_object x \<and> timestamp_accepted h x"
  from e obtain x' where x': "x' \<in> set xs" "snd (unified_entry1 h x') = Inl e"
    using format1_loop_Inl by blast
  with ok obtain d where d: "x' = JObj d" by (cases x') auto
  from ok x' d have acc: "timestamp_accepted h (JObj d)" by blast
  from x' d have "(\<exists>k\<in>set [''timestamp'', ''device_id'', ''temperature'', ''humidity'', ''pressure''].
        e = KeyError k \<and> \<not> dict_contains d k)
     \<or> (\<exists>ts. map_of d ''timestamp'' = Some ts \<and> snd (iso_to_milliseconds h ts) = Inl e)"
    using unified_entry1_Inl by blast
  moreover have "\<not> (\<exists>ts. map_of d ''timestamp'' = Some ts \<and> snd (iso_to_milliseconds h ts) = Inl e)"
    using acc by (auto simp: timestamp_accepted_def returns_iff)
  ultimately have "\<exists>k\<in>set format1_fields. e = KeyError k"
    by (auto simp: format1_fields_def)
  with e show "\<exists>k\<in>set format1_fields.
      snd (transform_format1_to_unified h data) = Inl (KeyError k)"
    unfolding transform_format1_list [OF k] by blast
next
  assume k: "map_of data ''sensors'' = Some (JList ys)"
    and bad: "\<exists>y\<in>set ys. is_object y \<and> \<not> has_fields format2_fields y"
  from bad obtain y e0 where "y \<in> set ys" "unified_entry2 y = Inl e0"
    using unified_entry2_lacking by blast
  then show "\<exists>e. transform_format2_to_unified data = Inl e"
    unfolding transform_format2_list [OF k] by (rule format2_loop_fails)
  then obtain e where e: "format2_loop ys [] = Inl e"
    unfolding transform_format2_list [OF k] by blast
  assume ok: "\<forall>y\<in>set ys. is_object y"
  from e obtain y' where y': "y' \<in> set ys" "unified_entry2 y' = Inl e"
    using format2_loop_Inl by blast
  with ok obtain d where d: "y' = JObj d" by (cases y') auto
  from y' d have "\<exists>k\<in>set [''id'', ''ts'', ''temp'', ''hum'', ''press''].
        e = KeyError k \<and> \<not> dict_contains d k"
    using unified_entry2_Inl by blast
  then have "\<exists>k\<in>set format2_fields. e = KeyError k"
    by (auto simp: format2_fields_def)
  with e show "\<exists>k\<in>set format2_fields. transform_format2_to_unified data = Inl (KeyError k)"
    unfolding transform_format2_list [OF k] by blast
qed

text \<open>
  Claim C6, as the code has it. When a record of the list lacks a required field, the mapper
  returns no list: an exception leaves it. That exception is the \<^verbatim>\<open>KeyError\<close> of a required
  field whenever every element of the list is a record and (for Format-A) the normaliser
  returns on every timestamp that is present. Nothing catches the exception of a mapper:
  it leaves \<^verbatim>\<open>main\<close> as well, and the run has written nothing.
\<close>

theorem missing_field_stops_the_mapper:
  "(map_of data ''telemetry'' = Some (JList xs) \<longrightarrow>
      (\<exists>x\<in>set xs. is_object x \<and> \<not> has_fields format1_fields x) \<longrightarrow>
      (\<exists>e. snd (transform_format1_to_unified h data) = Inl e)
      \<and> ((\<forall>x\<in>set xs. is_object x \<and> timestamp_accepted h x) \<longrightarrow>
          (\<exists>k\<in>set format1_fields.
             snd (transform_format1_to_unified h data) = Inl (KeyError k))))
   \<and> (map_of data ''sensors'' = Some (JList ys) \<longrightarrow>
      (\<exists>y\<in>set ys. is_object y \<and> \<not> has_fields format2_fields y) \<longrightarrow>
      (\<exists>e. transform_format2_to_unified data = Inl e)
      \<and> ((\<forall>y\<in>set ys. is_object y) \<longrightarrow>
          (\<exists>k\<in>set format2_fields. transform_format2_to_unified data = Inl (KeyError k))))
   \<and> (snd (load_json_file h ''data-1.json'') = Inr data1 \<longrightarrow>
      snd (load_json_file h ''data-2.json'') = Inr data2 \<longrightarrow>
      data1 \<noteq> [] \<longrightarrow> data2 \<noteq> [] \<longrightarrow>
      (snd (transform_format1_to_unified h data1) = Inl e
       \<or> (returns (transform_format1_to_unified h data1)
           \<and> transform_format2_to_unified data2 = Inl e)) \<longrightarrow>
      snd (main h) = Inl e \<and> written (fst (main h)) = [])"
  using missing_field_fault [of data xs h ys] main_mapper_fault [of h data1 data2 e]
  by blast

theorem missing_field_stops_the_mapper_witness:
  "(\<exists>k\<in>set format1_fields.
      snd (transform_format1_to_unified scenario_host
        [(''telemetry'',
          JList [scenario_record1, JObj [(''timestamp'', JStr ''2023-10-15T14:30:25.123Z'')]])])
      = Inl (KeyError k))
   \<and> (\<exists>k\<in>set format2_fields.
      transform_format2_to_unified
        [(''sensors'', JList [scenario_record2, JObj [(''id'', JStr ''sensor_003'')]])]
      = Inl (KeyError k))
   \<and> snd (main (host_of (Inr scenario1)
        (Inr [(''sensors'', JList [scenario_record2, JObj [(''id'', JStr ''sensor_003'')]])])))
      = Inl (KeyError ''ts'')
   \<and> written (fst (main (host_of (Inr scenario1)
        (Inr [(''sensors'', JList [scenario_record2, JObj [(''id'', JStr ''sensor_003'')]])]))))
      = []"
proof -
  let ?short1 = "JObj [(''timestamp'', JStr ''2023-10-15T14:30:25.123Z'')]"
  let ?short2 = "JObj [(''id'', JStr ''sensor_003'')]"
  let ?d1 = "[(''telemetry'', JList [scenario_record1, ?short1])]"
  let ?d2 = "[(''sensors'', JList [scenario_record2, ?short2])]"
  let ?h = "host_of (Inr scenario1) (Inr ?d2)"
  have l: "snd (load_json_file ?h ''data-1.json'') = Inr scenario1"
    "snd (load_json_file ?h ''data-2.json'') = Inr ?d2"
    by (simp_all add: load_json_file_Inr host_of_def)
  have ne: "scenario1 \<noteq> []" "?d2 \<noteq> []"
    by (simp_all add: scenario1_def)
  have t1: "returns (transform_format1_to_unified ?h scenario1)"
    by (simp add: scenario_mapped1 returns_def)
  have t2: "transform_format2_to_unified ?d2 = Inl (KeyError ''ts'')"
    by (simp add: mapper_eval scenario_record2_def)
  from missing_field_stops_the_mapper
    [of "[]" "[]" ?h "[]" scenario1 ?d2 "KeyError ''ts''"] l ne t1 t2
  have m: "snd (main ?h) = Inl (KeyError ''ts'') \<and> written (fst (main ?h)) = []"
    by simp
  have a: "map_of ?d1 ''telemetry'' = Some (JList [scenario_record1, ?short1])"
    and b: "map_of ?d2 ''sensors'' = Some (JList [scenario_record2, ?short2])"
    by simp_all
  have c: "\<exists>x\<in>set [scenario_record1, ?short1]. is_object x \<and> \<not> has_fields format1_fields x"
    by (simp add: format1_fields_def dict_contains_def)
  have d: "\<forall>x\<in>set [scenario_record1, ?short1]. is_object x \<and> timestamp_accepted scenario_host x"
    by (simp add: scenario_record1_def timestamp_accepted_def returns_def iso_2023_Z)
  have e: "\<exists>y\<in>set [scenario_record2, ?short2]. is_object y \<and> \<not> has_fields format2_fields y"
    by (simp add: format2_fields_def dict_contains_def)
  have f: "\<forall>y\<in>set [scenario_record2, ?short2]. is_object y"
    by (simp add: scenario_record2_def)
  from missing_field_stops_the_mapper
    [of ?d1 "[scenario_record1, ?short1]" scenario_host "[]"] a c d
  have "\<exists>k\<in>set format1_fields.
      snd (transform_format1_to_unified scenario_host ?d1) = Inl (KeyError k)"
    by blast
  moreover
  from missing_field_stops_the_mapper
    [of ?d2 "[]" scenario_host "[scenario_record2, ?short2]"] b e f
  have "\<exists>k\<in>set format2_fields. transform_format2_to_unified ?d2 = Inl (KeyError k)"
    by blast
  ultimately show ?thesis using m by blast
qed

text \<open>
  Claim C6 as stated fails on a Format-A record that holds only a numeric timestamp: it lacks
  four required fields, and the exception that leaves the mapper is the \<^verbatim>\<open>AttributeError\<close> of
  \<^verbatim>\<open>iso_timestamp.replace\<close>, raised before any other field is read.
\<close>

theorem missing_field_other_fault_counterexample:
  "is_object timestamp_only_record \<and> \<not> has_fields format1_fields timestamp_only_record
   \<and> snd (transform_format1_to_unified scenario_host
            [(''telemetry'', JList [timestamp_only_record])]) = Inl AttributeError"
  by (simp add: mapper_eval timestamp_only_record_def format1_fields_def
      iso_to_milliseconds_def)

subsection \<open>The merged list\<close>

text \<open>
  Claim C1. When both files load, the first document holds a list of \<open>M\<close> records under
  \<^verbatim>\<open>telemetry\<close>, the second a list of \<open>N\<close> records under \<^verbatim>\<open>sensors\<close>, and both mappers return,
  the list the run writes under \<^verbatim>\<open>unified_telemetry\<close> has length \<open>M + N\<close>: its first \<open>M\<close>
  records are the output of the Format-A mapper and the other \<open>N\<close> the output of the
  Format-B mapper, each in the order of its input.
\<close>

theorem merged_output_order:
  assumes "read_json h ''data-1.json'' = Inr data1"
    and "read_json h ''data-2.json'' = Inr data2"
    and "map_of data1 ''telemetry'' = Some (JList xs)"
    and "map_of data2 ''sensors'' = Some (JList ys)"
    and "snd (transform_format1_to_unified h data1) = Inr unified1"
    and "transform_format2_to_unified data2 = Inr unified2"
    and "write_json h ''output-unified.json'' = None"
  shows "written (fst (main h)) =
       [(''output-unified.json'', JObj [(''unified_telemetry'', JList (unified1 @ unified2))])]
     \<and> length (unified1 @ unified2) = length xs + length ys
     \<and> take (length xs) (unified1 @ unified2) = unified1
     \<and> drop (length xs) (unified1 @ unified2) = unified2
     \<and> list_all2 (\<lambda>x u. snd (unified_entry1 h x) = Inr u) xs unified1
     \<and> list_all2 (\<lambda>y u. unified_entry2 y = Inr u) ys unified2"
proof -
  have l1: "snd (load_json_file h ''data-1.json'') = Inr data1"
    and l2: "snd (load_json_file h ''data-2.json'') = Inr data2"
    using assms(1,2) by (simp_all add: load_json_file_Inr)
  have ne: "data1 \<noteq> []" "data2 \<noteq> []"
    using assms(3,4) by auto
  have a: "list_all2 (\<lambda>x u. snd (unified_entry1 h x) = Inr u) xs unified1"
    using assms(5) by (simp add: transform_format1_list [OF assms(3)] format1_loop_Inr)
  have b: "list_all2 (\<lambda>y u. unified_entry2 y = Inr u) ys unified2"
    using assms(6) by (simp add: transform_format2_list [OF assms(4)] format2_loop_Inr)
  have la: "length unified1 = length xs" using a by (simp add: list_all2_lengthD)
  have lb: "length unified2 = length ys" using b by (simp add: list_all2_lengthD)
  have "written (fst (main h)) =
       [(''output-unified.json'', JObj [(''unified_telemetry'', JList (unified1 @ unified2))])]"
    by (rule main_written [OF l1 l2 ne assms(5,6,7)])
  with a b la lb show ?thesis by simp
qed

theorem merged_output_order_witness:
  "written (fst (main scenario_host)) =
     [(''output-unified.json'',
       JObj [(''unified_telemetry'', JList [scenario_unified1, scenario_unified2])])]
   \<and> take 1 [scenario_unified1, scenario_unified2] = [scenario_unified1]
   \<and> drop 1 [scenario_unified1, scenario_unified2] = [scenario_unified2]"
proof -
  have a: "map_of scenario1 ''telemetry'' = Some (JList [scenario_record1])"
    by (simp add: scenario1_def)
  have b: "map_of scenario2 ''sensors'' = Some (JList [scenario_record2])"
    by (simp add: scenario2_def)
  have c: "snd (transform_format1_to_unified scenario_host scenario1) = Inr [scenario_unified1]"
    by (simp add: scenario_mapped1)
  from merged_output_order [OF scenario_host_reads(1,2) a b c scenario_mapped2
      scenario_host_reads(3)]
  show ?thesis by simp
qed

subsection \<open>Aborting the run\<close>

text \<open>
  Claim C9, as the code has it. When both loads return, the run stops after the message
  that the files could not be loaded, writing nothing, if and only if one of the two
  documents is empty. A file that is missing or is not JSON loads as the empty document.
  When neither document is empty and both mappers return, the run writes the merged list
  (if the file can be written).
\<close>

theorem abort_iff_empty_document:
  assumes "snd (load_json_file h ''data-1.json'') = Inr data1"
    and "snd (load_json_file h ''data-2.json'') = Inr data2"
  shows "((main h =
       ([Print MsgBanner, Print MsgRule, Print MsgLoading]
          @ fst (load_json_file h ''data-1.json'') @ fst (load_json_file h ''data-2.json'')
          @ [Print MsgCouldNotLoad], Inr ()))
       = (data1 = [] \<or> data2 = []))
     \<and> (data1 = [] \<or> data2 = [] \<longrightarrow> written (fst (main h)) = [])
     \<and> (data1 \<noteq> [] \<and> data2 \<noteq> [] \<longrightarrow>
          snd (transform_format1_to_unified h data1) = Inr unified1 \<longrightarrow>
          transform_format2_to_unified data2 = Inr unified2 \<longrightarrow>
          write_json h ''output-unified.json'' = None \<longrightarrow>
          written (fst (main h)) =
            [(''output-unified.json'',
              JObj [(''unified_telemetry'', JList (unified1 @ unified2))])])
     \<and> (read_json h f = Inl FileNotFoundError \<or> read_json h f = Inl JSONDecodeError \<longrightarrow>
          snd (load_json_file h f) = Inr [])"
proof (intro conjI impI)
  show "(main h =
       ([Print MsgBanner, Print MsgRule, Print MsgLoading]
          @ fst (load_json_file h ''data-1.json'') @ fst (load_json_file h ''data-2.json'')
          @ [Print MsgCouldNotLoad], Inr ()))
       = (data1 = [] \<or> data2 = [])"
    using main_abort [OF assms] main_proceeds_differently [OF assms] by blast
next
  assume "data1 = [] \<or> data2 = []"
  then show "written (fst (main h)) = []"
    by (simp add: main_abort [OF assms])
next
  assume "data1 \<noteq> [] \<and> data2 \<noteq> []"
    and "snd (transform_format1_to_unified h data1) = Inr unified1"
    and "transform_format2_to_unified data2 = Inr unified2"
    and "write_json h ''output-unified.json'' = None"
  then show "written (fst (main h)) =
            [(''output-unified.json'',
              JObj [(''unified_telemetry'', JList (unified1 @ unified2))])]"
    using main_written [OF assms] by blast
next
  assume "read_json h f = Inl FileNotFoundError \<or> read_json h f = Inl JSONDecodeError"
  then show "snd (load_json_file h f) = Inr []"
    using load_failure_is_empty by blast
qed

theorem abort_iff_empty_document_witness:
  "main scenario_host
     \<noteq> ([Print MsgBanner, Print MsgRule, Print MsgLoading, Print MsgCouldNotLoad], Inr ())
   \<and> written (fst (main scenario_host)) =
       [(''output-unified.json'',
         JObj [(''unified_telemetry'', JList ([scenario_unified1] @ [scenario_unified2]))])]"
proof -
  have l: "snd (load_json_file scenario_host ''data-1.json'') = Inr scenario1"
    "snd (load_json_file scenario_host ''data-2.json'') = Inr scenario2"
    by (simp_all add: scenario_host_loads)
  have ne: "scenario1 \<noteq> []" "scenario2 \<noteq> []"
    by (simp_all add: scenario1_def scenario2_def)
  have c: "snd (transform_format1_to_unified scenario_host scenario1) = Inr [scenario_unified1]"
    by (simp add: scenario_mapped1)
  from abort_iff_empty_document [OF l, of "[scenario_unified1]" "[scenario_unified2]"]
    ne c scenario_mapped2 scenario_host_reads(3)
  show ?thesis by (simp add: scenario_host_loads)
qed

text \<open>
  Claim C9 as stated fails on a host whose first file parses to the empty object: neither
  load fails and nothing is reported, yet the run aborts and writes nothing.
\<close>

theorem empty_object_without_load_failure_counterexample:
  "read_json empty_object_host ''data-1.json'' = Inr []
   \<and> read_json empty_object_host ''data-2.json'' = Inr scenario2
   \<and> fst (load_json_file empty_object_host ''data-1.json'') = []
   \<and> fst (load_json_file empty_object_host ''data-2.json'') = []
   \<and> main empty_object_host
       = ([Print MsgBanner, Print MsgRule, Print MsgLoading, Print MsgCouldNotLoad], Inr ())
   \<and> written (fst (main empty_object_host)) = []"
proof -
  have l: "snd (load_json_file empty_object_host ''data-1.json'') = Inr []"
    "snd (load_json_file empty_object_host ''data-2.json'') = Inr scenario2"
    by (simp_all add: empty_object_host_loads)
  have "main empty_object_host
       = ([Print MsgBanner, Print MsgRule, Print MsgLoading, Print MsgCouldNotLoad], Inr ())"
    using main_abort [OF l] by (simp add: empty_object_host_loads)
  then show ?thesis by (simp add: empty_object_host_reads empty_object_host_loads)
qed

text \<open>
  Claim C10. The run tests the documents for emptiness, not the loads for failure: when one
  of the files parses to the empty object, the run aborts without writing, and
  \<^verbatim>\<open>load_json_file\<close> returns the same empty document for that file as for a missing file and
  for a file that is not JSON.
\<close>

theorem empty_object_aborts_like_a_failed_load:
  assumes "read_json h ''data-1.json'' = Inr [] \<or> read_json h ''data-2.json'' = Inr []"
    and "snd (load_json_file h ''data-1.json'') = Inr data1"
    and "snd (load_json_file h ''data-2.json'') = Inr data2"
  shows "main h =
       ([Print MsgBanner, Print MsgRule, Print MsgLoading]
          @ fst (load_json_file h ''data-1.json'') @ fst (load_json_file h ''data-2.json'')
          @ [Print MsgCouldNotLoad], Inr ())
     \<and> written (fst (main h)) = []
     \<and> (read_json h f = Inr [] \<or> read_json h f = Inl FileNotFoundError
          \<or> read_json h f = Inl JSONDecodeError \<longrightarrow> snd (load_json_file h f) = Inr [])"
proof -
  from assms have e: "data1 = [] \<or> data2 = []"
    by (auto simp: load_json_file_Inr)
  have m: "main h =
       ([Print MsgBanner, Print MsgRule, Print MsgLoading]
          @ fst (load_json_file h ''data-1.json'') @ fst (load_json_file h ''data-2.json'')
          @ [Print MsgCouldNotLoad], Inr ())"
    by (rule main_abort [OF assms(2,3) e])
  have "written (fst (main h)) = []"
    by (simp add: m)
  with m show ?thesis using load_failure_is_empty by blast
qed

theorem empty_object_aborts_like_a_failed_load_witness:
  "read_json empty_object_host ''data-1.json'' = Inr []
   \<and> snd (main empty_object_host) = Inr ()
   \<and> last (fst (main empty_object_host)) = Print MsgCouldNotLoad
   \<and> written (fst (main empty_object_host)) = []"
proof -
  have l: "snd (load_json_file empty_object_host ''data-1.json'') = Inr []"
    "snd (load_json_file empty_object_host ''data-2.json'') = Inr scenario2"
    by (simp_all add: empty_object_host_loads)
  have r: "read_json empty_object_host ''data-1.json'' = Inr []
      \<or> read_json empty_object_host ''data-2.json'' = Inr []"
    by (simp add: empty_object_host_reads)
  from empty_object_aborts_like_a_failed_load [OF r l]
  show ?thesis by (simp add: empty_object_host_reads empty_object_host_loads)
qed

end
